theory Spec2Isabelle
  imports Complex_Main
begin

section \<open>Python computations: printed lines and exceptions\<close>

text \<open>
  The script \<^verbatim>\<open>UCNsource.py\<close> works on floats and prints diagnostics with
  \<^verbatim>\<open>print\<close>. A float is modelled by the real number it denotes. The physical
  relations are modelled in exact arithmetic, a literal standing for the decimal
  written: their rounding is outside the model. The sample values of the parameter
  sweep are modelled in double arithmetic, every operation rounded (see \<open>fl\<close> below),
  since the specification speaks of their exact values. The one place where the script
  tests for a NaN (\<^verbatim>\<open>math.isnan\<close> on the interpolated boiling curve) is modelled by
  an optional value.

  Infinities and NaNs are not real numbers, so the model follows a computation only
  as far as its floats are finite. A float division by zero is where it stops, with
  \<open>ZeroDivisor\<close>: there the script raises \<^verbatim>\<open>ZeroDivisionError\<close> when both operands
  are Python floats, and goes on with \<^verbatim>\<open>inf\<close> or \<^verbatim>\<open>nan\<close> and a
  \<^verbatim>\<open>RuntimeWarning\<close> when one of them is a \<^verbatim>\<open>numpy.float64\<close> (the entries of the
  arrays that the root finder passes and returns, and what is computed from them).
  The model does not say which of the two happens, nor what follows.

  A computation yields the lines it printed, in order, and either the reason it
  ended without a value or its value.
\<close>

datatype error = ZeroDivisor | IndexError

type_synonym 'a comp = "string list \<times> (error + 'a)"

definition return_c :: "'a \<Rightarrow> 'a comp" where
  "return_c v = ([], Inr v)"

definition raise_c :: "error \<Rightarrow> 'a comp" where
  "raise_c e = ([], Inl e)"

definition print_c :: "string \<Rightarrow> unit comp" where
  "print_c s = ([s], Inr ())"

definition bind_c :: "'a comp \<Rightarrow> ('a \<Rightarrow> 'b comp) \<Rightarrow> 'b comp" where
  "bind_c m f =
     (case m of
        (l, Inl e) \<Rightarrow> (l, Inl e)
      | (l, Inr v) \<Rightarrow> (case f v of (l', r) \<Rightarrow> (l @ l', r)))"

text \<open>Float division \<^verbatim>\<open>a/b\<close>, followed as long as the divisor is not zero.\<close>

definition pydiv :: "real \<Rightarrow> real \<Rightarrow> real comp" where
  "pydiv a b = (if b = 0 then raise_c ZeroDivisor else return_c (a / b))"

text \<open>Indexing with \<^verbatim>\<open>[-1]\<close>.\<close>

definition py_last :: "'a list \<Rightarrow> 'a comp" where
  "py_last xs = (if xs = [] then raise_c IndexError else return_c (last xs))"

text \<open>
  \<^verbatim>\<open>math.pi\<close> is the double nearest to the circle constant; this is its exact value.
\<close>

definition math_pi :: real where
  "math_pi = 3.141592653589793115997963468544185161590576171875"

section \<open>Double arithmetic\<close>

text \<open>
  A Python float is an IEEE 754 double: a sign, a 53-bit significand and a binary
  exponent between -1022 and 1023. \<open>fl x\<close> is the double nearest to the real \<open>x\<close>,
  ties going to the even significand, as the default rounding mode has it.
  \<open>scale_exp n x\<close> finds the binary exponent of a positive \<open>x\<close> by halving and
  doubling, in at most \<open>n\<close> steps. Below \<open>2 powi (- 1022)\<close> the spacing of the doubles
  stays that of the smallest exponent. Overflow is not modelled: a result of magnitude
  \<open>2 powi 1024\<close> or more is an infinity in Python.

  An arithmetic operation on doubles yields the rounded exact result, and a literal
  denotes the double nearest to the decimal written.
\<close>

fun scale_exp :: "nat \<Rightarrow> real \<Rightarrow> int" where
  "scale_exp 0 x = 0"
| "scale_exp (Suc n) x =
     (if 2 \<le> x then scale_exp n (x / 2) + 1
      else if x < 1 then scale_exp n (2 * x) - 1
      else 0)"

definition round_even :: "real \<Rightarrow> int" where
  "round_even r =
     (let f = \<lfloor>r\<rfloor>; d = r - of_int f in
      if d < 1 / 2 then f
      else if 1 / 2 < d then f + 1
      else if even f then f else f + 1)"

definition fl :: "real \<Rightarrow> real" where
  "fl x =
     (if x = 0 then 0
      else let u = 2 powi (max (scale_exp 1100 \<bar>x\<bar>) (- 1022) - 52)
           in u * of_int (round_even (x / u)))"

definition dadd :: "real \<Rightarrow> real \<Rightarrow> real" where
  "dadd a b = fl (a + b)"

definition dsub :: "real \<Rightarrow> real \<Rightarrow> real" where
  "dsub a b = fl (a - b)"

definition dmul :: "real \<Rightarrow> real \<Rightarrow> real" where
  "dmul a b = fl (a * b)"

definition ddiv :: "real \<Rightarrow> real \<Rightarrow> real" where
  "ddiv a b = fl (a / b)"

definition lit :: "real \<Rightarrow> real" where
  "lit x = fl x"

section \<open>The external collaborators\<close>

text \<open>
  The helium property libraries \<^verbatim>\<open>hepak\<close> and \<^verbatim>\<open>he3pak\<close>, the interpolator built by
  \<^verbatim>\<open>loadHe3boilingData\<close>, the integrator \<^verbatim>\<open>scipy.integrate.solve_ivp\<close>, the
  root finder \<^verbatim>\<open>scipy.optimize.root\<close> and the formatting of floats are not part of the
  script. They are parameters of the model, collected in one record; every definition
  below takes it as its first argument. The property libraries are pure total functions.

  The first argument of \<^verbatim>\<open>hepak.HeCalc\<close> is a property name or a property index.
  The state handed to the root finder is an array of three floats and is modelled by a
  triple; the state of the integrator is an array of one float and is modelled by that
  float. The integrator yields the row \<^verbatim>\<open>result.y[0]\<close>, the root finder the fields
  \<^verbatim>\<open>success\<close> and \<^verbatim>\<open>x\<close> of its result. Both call back into the script, so they
  take and yield computations.
\<close>

datatype hearg = Str string | Num int

type_synonym state = "real \<times> real \<times> real"

record sol =
  success :: bool
  sol_x :: state

record env =
  HeConst :: "int \<Rightarrow> real"
  HeCalc :: "hearg \<Rightarrow> int \<Rightarrow> string \<Rightarrow> real \<Rightarrow> string \<Rightarrow> real \<Rightarrow> int \<Rightarrow> real"
  He3Density :: "real \<Rightarrow> real \<Rightarrow> real"
  He3Prop :: "int \<Rightarrow> real \<Rightarrow> real \<Rightarrow> real"
  He3SaturatedVaporProp :: "int \<Rightarrow> real \<Rightarrow> real"
  He3SaturatedLiquidProp :: "int \<Rightarrow> real \<Rightarrow> real"
  He3SaturatedTemperature :: "real \<Rightarrow> real"
  He3boilingData :: "real \<Rightarrow> real \<Rightarrow> real option"
  solve_ivp :: "(real \<Rightarrow> real \<Rightarrow> real comp) \<Rightarrow> real \<times> real \<Rightarrow> real \<Rightarrow> real list comp"
  root :: "(state \<Rightarrow> state comp) \<Rightarrow> state \<Rightarrow> sol comp"
  format_3g :: "real \<Rightarrow> string"
  float_str :: "real \<Rightarrow> string"

section \<open>Sub-model functions\<close>

text \<open>Cooling power required to cool a He flow from inlet to outlet temperature.\<close>

definition HeCoolingLoad :: "env \<Rightarrow> real \<Rightarrow> real \<Rightarrow> real \<Rightarrow> real \<Rightarrow> real" where
  "HeCoolingLoad E flow pressure inletTemperature outletTemperature =
     (let outletTemperature = max (HeConst E 3) outletTemperature in
      flow * (HeCalc E (Str ''H'') 0 ''P'' pressure ''T'' inletTemperature 1
              - HeCalc E (Str ''H'') 0 ''P'' pressure ''T'' outletTemperature 1))"

text \<open>Flow required to remove a heat load.\<close>

definition HeCoolingFlow :: "env \<Rightarrow> real \<Rightarrow> real \<Rightarrow> real \<Rightarrow> real \<Rightarrow> real comp" where
  "HeCoolingFlow E heatLoad pressure inletTemperature outletTemperature =
     pydiv heatLoad
       (HeCalc E (Str ''H'') 0 ''P'' pressure ''T'' outletTemperature 1
        - HeCalc E (Str ''H'') 0 ''P'' pressure ''T'' inletTemperature 1)"

text \<open>Cooling power required to cool a He3 flow from inlet to outlet temperature.\<close>

definition He3CoolingLoad :: "env \<Rightarrow> real \<Rightarrow> real \<Rightarrow> real \<Rightarrow> real \<Rightarrow> real" where
  "He3CoolingLoad E flow pressure inletTemperature outletTemperature =
     (let inletDensity = He3Density E pressure inletTemperature;
          inletEnthalpy = He3Prop E 6 inletDensity inletTemperature;
          outletDensity = He3Density E pressure outletTemperature;
          outletEnthalpy = He3Prop E 6 outletDensity outletTemperature
      in flow * (inletEnthalpy - outletDensity))"

text \<open>
  Evaporation rate of the helium reservoir when He3 flows through it. (The source's
  parameter \<^verbatim>\<open>He3Flow\<close> shadows the function of that name; it is primed here and
  below. Likewise the parameter \<^verbatim>\<open>OneKPotTemperature\<close> of \<^verbatim>\<open>OneKPotEvaporation\<close>
  is \<open>OneKPotTemp\<close>.)
\<close>

definition HeReservoirEvaporation ::
  "env \<Rightarrow> real \<Rightarrow> real \<Rightarrow> real \<Rightarrow> real \<Rightarrow> real \<Rightarrow> real \<Rightarrow> real \<Rightarrow> real comp" where
  "HeReservoirEvaporation E He3Flow' He3Pressure He3InletTemperature IPFlow IPPressure
       IPInletTemperature reservoirPressure =
     (let reservoirTemperature = HeCalc E (Str ''T'') 0 ''P'' reservoirPressure ''SV'' 0 1;
          He3HeatLoad = He3CoolingLoad E He3Flow' He3Pressure He3InletTemperature reservoirTemperature;
          IPHeatLoad = HeCoolingLoad E IPFlow IPPressure IPInletTemperature reservoirTemperature
      in pydiv (He3HeatLoad + IPHeatLoad) (HeCalc E (Num 7) 0 ''P'' reservoirPressure ''SL'' 0 1))"

text \<open>Flows required to cool the 20K and 100K shields.\<close>

definition shieldFlow :: "env \<Rightarrow> real \<Rightarrow> real \<Rightarrow> real \<Rightarrow> (real \<times> real) comp" where
  "shieldFlow E IPFlow IPPressure inletPressure =
     (let IPHeatLoad_100 = HeCoolingLoad E IPFlow IPPressure 300 100;
          IPHeatLoad_20 = HeCoolingLoad E IPFlow IPPressure 100 20
      in bind_c (HeCoolingFlow E (4.3 + 0.7 + 1.1 + 2 + 6.6 + IPHeatLoad_20) inletPressure 10 20)
           (\<lambda>flow_20.
         bind_c (HeCoolingFlow E (49 + 8.9 + 5.7 + 14 + IPHeatLoad_100) inletPressure 30 100)
           (\<lambda>flow_100.
         return_c (flow_20, flow_100))))"

text \<open>Temperature of the 1K pot when a gas flow is pumped away (pumping speed in m3/h).\<close>

definition OneKPotTemperature :: "env \<Rightarrow> real \<Rightarrow> real \<Rightarrow> real \<Rightarrow> real \<Rightarrow> real comp" where
  "OneKPotTemperature E HeFlow pumpingSpeed pumpInletTemperature pumpingPressureDrop =
     (let HeFlow = max 0 (min HeFlow 0.1) in
      bind_c (pydiv (HeFlow * HeConst E 4 * pumpInletTemperature) (pumpingSpeed / 3600))
        (\<lambda>pumpInletPressure.
      return_c (HeCalc E (Str ''T'') 0 ''P'' (pumpInletPressure + pumpingPressureDrop) ''SL'' 0 1)))"

text \<open>Evaporation rate from the 1K pot at a given temperature and He3 flow.\<close>

definition OneKPotEvaporation ::
  "env \<Rightarrow> real \<Rightarrow> real \<Rightarrow> real \<Rightarrow> real \<Rightarrow> real \<Rightarrow> real \<Rightarrow> real \<Rightarrow> real \<Rightarrow> real \<Rightarrow> real comp" where
  "OneKPotEvaporation E He3Flow' He3Pressure He3InletTemperature IPFlow IPPressure
       IPInletTemperature HeInletPressure HeInletTemperature OneKPotTemp =
     (let He3HeatLoad = He3CoolingLoad E He3Flow' He3Pressure He3InletTemperature OneKPotTemp;
          IPHeatLoad = HeCoolingLoad E IPFlow IPPressure IPInletTemperature OneKPotTemp;
          HeInletEnthalpy = HeCalc E (Str ''H'') 0 ''T'' HeInletTemperature ''P'' HeInletPressure 1;
          HeVaporEnthalpy = HeCalc E (Str ''H'') 0 ''T'' OneKPotTemp ''SV'' 0 1;
          HeLiquidEnthalpy = HeCalc E (Str ''H'') 0 ''T'' OneKPotTemp ''SL'' 0 1
      in bind_c (pydiv (HeInletEnthalpy - HeVaporEnthalpy) (HeLiquidEnthalpy - HeVaporEnthalpy))
           (\<lambda>liquidFraction.
         bind_c (pydiv (He3HeatLoad + IPHeatLoad) (HeCalc E (Num 7) 0 ''T'' OneKPotTemp ''SL'' 0 1))
           (\<lambda>liquidFlow.
         pydiv liquidFlow liquidFraction)))"

text \<open>He3 flow through the JT valve required to remove a heat load.\<close>

definition He3Flow :: "env \<Rightarrow> real \<Rightarrow> real \<Rightarrow> real \<Rightarrow> real \<Rightarrow> real comp" where
  "He3Flow E inletTemperature inletPressure temperature heatLoad =
     (let inletDensity = He3Density E inletPressure inletTemperature;
          inletEnthalpy = He3Prop E 6 inletDensity inletTemperature;
          vaporEnthalpy = He3SaturatedVaporProp E 6 temperature;
          liquidEnthalpy = He3SaturatedLiquidProp E 6 temperature
      in bind_c (pydiv (inletEnthalpy - vaporEnthalpy) (liquidEnthalpy - vaporEnthalpy))
           (\<lambda>liquidFraction.
         let latentHeat = He3SaturatedLiquidProp E 13 temperature in
         bind_c (pydiv heatLoad latentHeat)
           (\<lambda>liquidFlow.
         pydiv liquidFlow liquidFraction)))"

text \<open>He3 temperature when a gas flow is pumped away (pumping speed in m3/h).\<close>

definition He3Temperature :: "env \<Rightarrow> real \<Rightarrow> real \<Rightarrow> real \<Rightarrow> real \<Rightarrow> real comp" where
  "He3Temperature E He3Flow' pumpingSpeed pumpInletTemperature pumpingPressureDrop =
     (let specificGasConstant = 2756.7579 in
      bind_c (pydiv (He3Flow' * specificGasConstant * pumpInletTemperature) (pumpingSpeed / 3600))
        (\<lambda>pumpInletPressure.
      return_c (He3SaturatedTemperature E (pumpInletPressure + pumpingPressureDrop))))"

text \<open>
  Temperature of HEX1 from the interpolated He3 boiling curve. The interpolator yields
  NaN outside the convex hull of its data, here \<open>None\<close>.
\<close>

definition HEX1Temperature ::
  "env \<Rightarrow> real \<Rightarrow> real \<Rightarrow> real \<Rightarrow> real \<Rightarrow> real \<Rightarrow> real \<Rightarrow> real comp" where
  "HEX1Temperature E T_He3 HEX1length HEX1diameter finHeight finPitch heatLoad =
     (if heatLoad \<le> 0 then return_c T_He3
      else
        bind_c (pydiv HEX1length finPitch)
          (\<lambda>numberFins.
        let area = HEX1diameter * math_pi * HEX1length / 2
                   + (HEX1diameter + 2 * finHeight) * math_pi * HEX1length / 2
                   + ((HEX1diameter / 2 + finHeight)\<^sup>2 - (HEX1diameter / 2)\<^sup>2) * math_pi * numberFins * 2
        in
        bind_c (pydiv heatLoad area)
          (\<lambda>q.
        case He3boilingData E T_He3 q of
          None \<Rightarrow>
            bind_c (print_c ''He3 temperature outside valid boiling temperature range!'')
              (\<lambda>_. return_c T_He3)
        | Some dT \<Rightarrow> return_c (T_He3 + dT))))"

text \<open>Temperature of He-II at HEX1 from the empirical Kapitza conductance.\<close>

definition He4Temperature :: "real \<Rightarrow> real \<Rightarrow> real \<Rightarrow> real \<Rightarrow> real comp" where
  "He4Temperature T_Cu HEX1length HEX1diameter heatLoad =
     (let A = HEX1diameter * math_pi * HEX1length;
          h = 900 * T_Cu ^ 3
      in bind_c (pydiv heatLoad A)
           (\<lambda>qA.
         bind_c (pydiv qA h)
           (\<lambda>dT.
         return_c (T_Cu + dT))))"

text \<open>
  Temperature profile of He-II in the conduction channel from the Gorter-Mellink
  equation. \<open>dTdx\<close> is the nested function of \<open>HeIItemperature\<close>; the variables it
  closes over are its leading arguments.
\<close>

definition dTdx :: "env \<Rightarrow> real \<Rightarrow> real \<Rightarrow> real \<Rightarrow> real \<Rightarrow> real \<Rightarrow> real comp" where
  "dTdx E pressure heatLoad A x T =
     (if T < HeConst E 3 then
        bind_c (print_c (''T_4He '' @ format_3g E T @ '' outside HEPAK range!''))
          (\<lambda>_. return_c 0)
      else
        let k = HeCalc E (Num 38) 0 ''P'' pressure ''T'' T 1 in
        if k > 0 then
          bind_c (pydiv heatLoad A) (\<lambda>qA. pydiv (qA ^ 3) k)
        else
          bind_c (print_c ''Conductivity <= 0!'') (\<lambda>_. return_c 0))"

definition HeIItemperature :: "env \<Rightarrow> real \<Rightarrow> real \<Rightarrow> real \<Rightarrow> real \<Rightarrow> real \<Rightarrow> real comp" where
  "HeIItemperature E x T_low pressure heatLoad channelDiameter =
     (if heatLoad = 0 then return_c T_low
      else
        let A = math_pi * channelDiameter\<^sup>2 / 4 in
        bind_c (solve_ivp E (dTdx E pressure heatLoad A) (0, x) T_low)
          (\<lambda>y. py_last y))"

section \<open>The parameter table\<close>

text \<open>
  \<^verbatim>\<open>parameters\<close> is a dictionary with a fixed set of literal keys, each holding the
  fields \<^verbatim>\<open>'value'\<close>, \<^verbatim>\<open>'range'\<close> and \<^verbatim>\<open>'unit'\<close>. The keys are a datatype, so
  a table is a total function on them; \<open>key\<close> gives the key as the script writes it and
  \<open>parameter_names\<close> the order in which the dictionary lists them.

  The bounds of a range enter only the sample values of the sweep, which are computed
  in double arithmetic: a bound is the double its literal denotes (\<open>lit\<close>; an integer
  bound is that integer). The values enter the physical relations, where a literal
  stands for its decimal.
\<close>

datatype pname =
    He3_pumping_speed | He_pumping_speed | Pump_inlet_temperature | He3_inlet_pressure
  | Beam_heating | Static_heat | He3_pressure_drop | He_pressure_drop | Channel_diameter
  | Channel_length | HEX1_length | HEX1_fin_height | HEX1_fin_pitch | HeII_overfill
  | He_reservoir_pressure | OneKpot_inlet_temperature | He_reservoir_inlet_temperature
  | Isopure_He_flow | Isopure_He_inlet_temperature | Isopure_He_pressure

fun key :: "pname \<Rightarrow> string" where
  "key He3_pumping_speed = ''3He pumping speed''"
| "key He_pumping_speed = ''He pumping speed''"
| "key Pump_inlet_temperature = ''Pump inlet temperature''"
| "key He3_inlet_pressure = ''3He inlet pressure''"
| "key Beam_heating = ''Beam heating''"
| "key Static_heat = ''Static heat''"
| "key He3_pressure_drop = ''3He pressure drop''"
| "key He_pressure_drop = ''He pressure drop''"
| "key Channel_diameter = ''Channel diameter''"
| "key Channel_length = ''Channel length''"
| "key HEX1_length = ''HEX1 length''"
| "key HEX1_fin_height = ''HEX1 fin height''"
| "key HEX1_fin_pitch = ''HEX1 fin pitch''"
| "key HeII_overfill = ''HeII overfill''"
| "key He_reservoir_pressure = ''He reservoir pressure''"
| "key OneKpot_inlet_temperature = ''1K pot inlet temperature''"
| "key He_reservoir_inlet_temperature = ''He reservoir inlet temperature''"
| "key Isopure_He_flow = ''Isopure He flow''"
| "key Isopure_He_inlet_temperature = ''Isopure He inlet temperature''"
| "key Isopure_He_pressure = ''Isopure He pressure''"

definition parameter_names :: "pname list" where
  "parameter_names =
     [He3_pumping_speed, He_pumping_speed, Pump_inlet_temperature, He3_inlet_pressure,
      Beam_heating, Static_heat, He3_pressure_drop, He_pressure_drop, Channel_diameter,
      Channel_length, HEX1_length, HEX1_fin_height, HEX1_fin_pitch, HeII_overfill,
      He_reservoir_pressure, OneKpot_inlet_temperature, He_reservoir_inlet_temperature,
      Isopure_He_flow, Isopure_He_inlet_temperature, Isopure_He_pressure]"

record parameter =
  p_value :: real
  p_range :: "real \<times> real"
  p_unit :: string

type_synonym table = "pname \<Rightarrow> parameter"

fun parameters :: table where
  "parameters He3_pumping_speed =
     \<lparr>p_value = 5000, p_range = (300, 10000), p_unit = ''m$^{3}$/h''\<rparr>"
| "parameters He_pumping_speed =
     \<lparr>p_value = 2000, p_range = (500, 5000), p_unit = ''m$^{3}$/h''\<rparr>"
| "parameters Pump_inlet_temperature =
     \<lparr>p_value = 290, p_range = (100, 300), p_unit = ''K''\<rparr>"
| "parameters He3_inlet_pressure =
     \<lparr>p_value = 50000, p_range = (50000, 100000), p_unit = ''Pa''\<rparr>"
| "parameters Beam_heating =
     \<lparr>p_value = 8.1, p_range = (0, 10), p_unit = ''W''\<rparr>"
| "parameters Static_heat =
     \<lparr>p_value = 1, p_range = (lit 0.1, 2), p_unit = ''W''\<rparr>"
| "parameters He3_pressure_drop =
     \<lparr>p_value = 200, p_range = (0, 1000), p_unit = ''Pa''\<rparr>"
| "parameters He_pressure_drop =
     \<lparr>p_value = 200, p_range = (0, 1000), p_unit = ''Pa''\<rparr>"
| "parameters Channel_diameter =
     \<lparr>p_value = 0.148, p_range = (lit 0.1, lit 0.2), p_unit = ''m''\<rparr>"
| "parameters Channel_length =
     \<lparr>p_value = 2.5, p_range = (1, 4), p_unit = ''m''\<rparr>"
| "parameters HEX1_length =
     \<lparr>p_value = 0.6, p_range = (lit 0.1, lit 0.6), p_unit = ''m''\<rparr>"
| "parameters HEX1_fin_height =
     \<lparr>p_value = 0.001, p_range = (0, lit 0.003), p_unit = ''m''\<rparr>"
| "parameters HEX1_fin_pitch =
     \<lparr>p_value = 0.002, p_range = (lit 0.0005, lit 0.005), p_unit = ''m''\<rparr>"
| "parameters HeII_overfill =
     \<lparr>p_value = 0.05, p_range = (lit 0.01, lit 0.2), p_unit = ''m''\<rparr>"
| "parameters He_reservoir_pressure =
     \<lparr>p_value = 120000, p_range = (90000, 150000), p_unit = ''Pa''\<rparr>"
| "parameters OneKpot_inlet_temperature =
     \<lparr>p_value = 2.8, p_range = (2, 4), p_unit = ''K''\<rparr>"
| "parameters He_reservoir_inlet_temperature =
     \<lparr>p_value = 8, p_range = (6, 12), p_unit = ''K''\<rparr>"
| "parameters Isopure_He_flow =
     \<lparr>p_value = 0, p_range = (0, 0), p_unit = ''kg/s''\<rparr>"
| "parameters Isopure_He_inlet_temperature =
     \<lparr>p_value = 20, p_range = (10, 40), p_unit = ''K''\<rparr>"
| "parameters Isopure_He_pressure =
     \<lparr>p_value = 10000, p_range = (1000, 50000), p_unit = ''Pa''\<rparr>"

section \<open>The equation set and its solution\<close>

text \<open>\<open>x\<close>: (3He flow, 1K pot temperature, 4He temperature at HEX1).\<close>

definition equationSet :: "env \<Rightarrow> state \<Rightarrow> table \<Rightarrow> state comp" where
  "equationSet E x ps =
     (case x of (x0, x1, x2) \<Rightarrow>
      let heatLoad = p_value (ps Beam_heating) + p_value (ps Static_heat)
                     + HeCoolingLoad E (p_value (ps Isopure_He_flow))
                         (p_value (ps Isopure_He_pressure)) x1 x2 in
      bind_c (He3Temperature E x0 (p_value (ps He3_pumping_speed))
                (p_value (ps Pump_inlet_temperature)) (p_value (ps He3_pressure_drop)))
        (\<lambda>T_He3.
      bind_c (He3Flow E x1 (p_value (ps He3_inlet_pressure)) T_He3 heatLoad)
        (\<lambda>flow.
      let reservoirTemperature =
            HeCalc E (Str ''T'') 0 ''P'' (p_value (ps He_reservoir_pressure)) ''SV'' 0 1 in
      bind_c (OneKPotEvaporation E x0 (p_value (ps He3_inlet_pressure))
                (p_value (ps OneKpot_inlet_temperature)) (p_value (ps Isopure_He_flow))
                (p_value (ps Isopure_He_pressure)) reservoirTemperature
                (p_value (ps He_reservoir_pressure)) (p_value (ps OneKpot_inlet_temperature)) x1)
        (\<lambda>OneKPotFlow.
      bind_c (OneKPotTemperature E OneKPotFlow (p_value (ps He_pumping_speed))
                (p_value (ps Pump_inlet_temperature)) (p_value (ps He_pressure_drop)))
        (\<lambda>T_1Kpot.
      bind_c (HEX1Temperature E T_He3 (p_value (ps HEX1_length)) (p_value (ps Channel_diameter))
                (p_value (ps HEX1_fin_height)) (p_value (ps HEX1_fin_pitch)) heatLoad)
        (\<lambda>T_HEX1.
      bind_c (He4Temperature T_HEX1 (p_value (ps HEX1_length)) (p_value (ps Channel_diameter))
                heatLoad)
        (\<lambda>T_He4.
      return_c (flow - x0, T_1Kpot - x1, T_He4 - x2))))))))"

text \<open>
  The result dictionary of \<^verbatim>\<open>calcUCNSource\<close>: a fixed set of literal keys, so a record.
  The fields stand for the keys \<^verbatim>\<open>'3He flow'\<close>, \<^verbatim>\<open>'1K pot temperature'\<close>,
  \<^verbatim>\<open>'T_4He'\<close>, \<^verbatim>\<open>'He reservoir temperature'\<close>, \<^verbatim>\<open>'1K pot flow'\<close>,
  \<^verbatim>\<open>'He reservoir flow'\<close>, \<^verbatim>\<open>'He consumption'\<close>, \<^verbatim>\<open>'20K shield flow'\<close>,
  \<^verbatim>\<open>'100K shield flow'\<close>, \<^verbatim>\<open>'Shield consumption'\<close>, \<^verbatim>\<open>'T_3He'\<close>, \<^verbatim>\<open>'T_Cu'\<close>,
  \<^verbatim>\<open>'HeII vapor pressure'\<close>, \<^verbatim>\<open>'HeII pressure head'\<close> and \<^verbatim>\<open>'T_HeII'\<close>.
\<close>

record result =
  He3_flow :: real
  OneKpot_temperature :: real
  T_4He :: real
  He_reservoir_temperature :: real
  OneKpot_flow :: real
  He_reservoir_flow :: real
  He_consumption :: real
  shield_flow_20K :: real
  shield_flow_100K :: real
  Shield_consumption :: real
  T_3He :: real
  T_Cu :: real
  HeII_vapor_pressure :: real
  HeII_pressure_head :: real
  T_HeII :: real

text \<open>
  Solve the equation set and return the solution with some other calculated properties.
  A bare \<^verbatim>\<open>return\<close> yields \<open>None\<close>.
\<close>

definition calcUCNSource :: "env \<Rightarrow> table \<Rightarrow> result option comp" where
  "calcUCNSource E ps =
     bind_c (root E (\<lambda>x. equationSet E x ps) (0.002, 1.8, 1))
       (\<lambda>sol.
     if \<not> success sol then
       bind_c (print_c ''Solution did not converge!'') (\<lambda>_. return_c None)
     else
       case sol_x sol of (r_3He_flow, r_1Kpot_temperature, r_T_4He) \<Rightarrow>
       let r_He_reservoir_temperature =
             HeCalc E (Str ''T'') 0 ''P'' (p_value (ps He_reservoir_pressure)) ''SV'' 0 1 in
       bind_c (OneKPotEvaporation E r_3He_flow (p_value (ps He3_inlet_pressure))
                 (p_value (ps OneKpot_inlet_temperature)) (p_value (ps Isopure_He_flow))
                 (p_value (ps Isopure_He_pressure)) r_He_reservoir_temperature
                 (p_value (ps He_reservoir_pressure)) (p_value (ps OneKpot_inlet_temperature))
                 r_1Kpot_temperature)
         (\<lambda>r_1Kpot_flow.
       bind_c (HeReservoirEvaporation E r_3He_flow (p_value (ps He3_inlet_pressure))
                 (p_value (ps He_reservoir_inlet_temperature)) (p_value (ps Isopure_He_flow))
                 (p_value (ps Isopure_He_pressure)) (p_value (ps Isopure_He_inlet_temperature))
                 (p_value (ps He_reservoir_pressure)))
         (\<lambda>r_He_reservoir_flow.
       bind_c (pydiv (r_He_reservoir_flow + r_1Kpot_flow)
                 (HeCalc E (Str ''D'') 0 ''P'' 101300 ''SL'' 0 1))
         (\<lambda>c.
       let r_He_consumption = c * 1000 * 3600 in
       bind_c (shieldFlow E (p_value (ps Isopure_He_flow)) (p_value (ps Isopure_He_pressure))
                 (p_value (ps He_reservoir_pressure)))
         (\<lambda>sf.
       let r_20K_shield_flow = fst sf in
       bind_c (shieldFlow E (p_value (ps Isopure_He_flow)) (p_value (ps Isopure_He_pressure))
                 (p_value (ps He_reservoir_pressure)))
         (\<lambda>sf.
       let r_100K_shield_flow = snd sf in
       bind_c (pydiv (max r_20K_shield_flow r_100K_shield_flow)
                 (HeCalc E (Str ''D'') 0 ''P'' 101300 ''SL'' 0 1))
         (\<lambda>c.
       let r_Shield_consumption = c * 1000 * 3600 in
       bind_c (He3Temperature E r_3He_flow (p_value (ps He3_pumping_speed))
                 (p_value (ps Pump_inlet_temperature)) (p_value (ps He3_pressure_drop)))
         (\<lambda>r_T_3He.
       let heatLoad = p_value (ps Beam_heating) + p_value (ps Static_heat)
                      + HeCoolingLoad E (p_value (ps Isopure_He_flow))
                          (p_value (ps Isopure_He_pressure)) r_1Kpot_temperature r_T_4He in
       bind_c (HEX1Temperature E r_T_3He (p_value (ps HEX1_length)) (p_value (ps Channel_diameter))
                 (p_value (ps HEX1_fin_height)) (p_value (ps HEX1_fin_pitch)) heatLoad)
         (\<lambda>r_T_Cu.
       if r_T_4He < HeConst E 3 then
         bind_c (print_c (''T_4He '' @ format_3g E r_T_4He @ '' outside HEPAK range!''))
           (\<lambda>_.
         return_c (Some
           \<lparr>He3_flow = r_3He_flow, OneKpot_temperature = r_1Kpot_temperature,
            T_4He = r_T_4He, He_reservoir_temperature = r_He_reservoir_temperature,
            OneKpot_flow = r_1Kpot_flow, He_reservoir_flow = r_He_reservoir_flow,
            He_consumption = r_He_consumption, shield_flow_20K = r_20K_shield_flow,
            shield_flow_100K = r_100K_shield_flow, Shield_consumption = r_Shield_consumption,
            T_3He = r_T_3He, T_Cu = r_T_Cu,
            HeII_vapor_pressure = 0, HeII_pressure_head = 0, T_HeII = 0\<rparr>))
       else
         let r_HeII_vapor_pressure = HeCalc E (Str ''P'') 0 ''T'' r_T_4He ''SL'' 0 1;
             r_HeII_pressure_head =
               HeCalc E (Str ''D'') 0 ''T'' r_T_4He ''SL'' 0 1 * 9.81 * p_value (ps HeII_overfill)
         in
         bind_c (HeIItemperature E (p_value (ps Channel_length)) r_T_4He
                   (r_HeII_vapor_pressure + r_HeII_pressure_head) (p_value (ps Beam_heating))
                   (p_value (ps Channel_diameter)))
           (\<lambda>r_T_HeII.
         return_c (Some
           \<lparr>He3_flow = r_3He_flow, OneKpot_temperature = r_1Kpot_temperature,
            T_4He = r_T_4He, He_reservoir_temperature = r_He_reservoir_temperature,
            OneKpot_flow = r_1Kpot_flow, He_reservoir_flow = r_He_reservoir_flow,
            He_consumption = r_He_consumption, shield_flow_20K = r_20K_shield_flow,
            shield_flow_100K = r_100K_shield_flow, Shield_consumption = r_Shield_consumption,
            T_3He = r_T_3He, T_Cu = r_T_Cu,
            HeII_vapor_pressure = r_HeII_vapor_pressure,
            HeII_pressure_head = r_HeII_pressure_head, T_HeII = r_T_HeII\<rparr>)))))))))))"

section \<open>The parameter sweep\<close>

text \<open>
  For every parameter the script clones the table, samples the parameter's range at
  eleven points, solves at each and appends to the lists it plots afterwards. The lists
  \<^verbatim>\<open>x, y, y2, ..., y9\<close> are the fields of a record; the body of the inner loop is
  \<open>sweepPoint\<close>, on the cloned table and the lists. \<open>sweepValue\<close> is the sample of
  line 276, \<^verbatim>\<open>range[0] + float(j)/10.*(range[1] - range[0])\<close>, with its four double
  operations. \<^verbatim>\<open>if res:\<close> holds for a result dictionary (it is never empty) and fails
  for \<open>None\<close>. Plotting is not modelled.
\<close>

record series =
  s_x :: "real list"
  s_y :: "real list"
  s_y2 :: "real list"
  s_y3 :: "real list"
  s_y4 :: "real list"
  s_y5 :: "real list"
  s_y6 :: "real list"
  s_y7 :: "real list"
  s_y8 :: "real list"
  s_y9 :: "real list"

definition no_series :: series where
  "no_series = \<lparr>s_x = [], s_y = [], s_y2 = [], s_y3 = [], s_y4 = [], s_y5 = [], s_y6 = [],
                 s_y7 = [], s_y8 = [], s_y9 = []\<rparr>"

definition sweepValue :: "table \<Rightarrow> pname \<Rightarrow> nat \<Rightarrow> real" where
  "sweepValue params p j =
     dadd (fst (p_range (params p)))
       (dmul (ddiv (real j) 10) (dsub (snd (p_range (params p))) (fst (p_range (params p)))))"

definition sweepPoint :: "env \<Rightarrow> pname \<Rightarrow> nat \<Rightarrow> table \<times> series \<Rightarrow> (table \<times> series) comp" where
  "sweepPoint E p j st =
     (case st of (params, s) \<Rightarrow>
      let v = sweepValue params p j in
      bind_c (print_c (float_str E v @ '' '' @ p_unit (params p)))
        (\<lambda>_.
      let params = params(p := (params p)\<lparr>p_value := v\<rparr>) in
      bind_c (calcUCNSource E params)
        (\<lambda>res.
      case res of
        None \<Rightarrow> return_c (params, s)
      | Some r \<Rightarrow>
          return_c (params,
            s\<lparr>s_x := s_x s @ [p_value (params p)],
              s_y := s_y s @ [He_reservoir_flow r * 1000],
              s_y2 := s_y2 s @ [T_HeII r],
              s_y3 := s_y3 s @ [T_3He r],
              s_y4 := s_y4 s @ [T_4He r],
              s_y5 := s_y5 s @ [He3_flow r * 1000],
              s_y6 := s_y6 s @ [OneKpot_flow r * 1000],
              s_y7 := s_y7 s @ [max (shield_flow_20K r) (shield_flow_100K r) * 1000],
              s_y8 := s_y8 s @ [OneKpot_temperature r],
              s_y9 := s_y9 s @ [T_Cu r]\<rparr>))))"

fun sweepLoop :: "env \<Rightarrow> pname \<Rightarrow> nat list \<Rightarrow> table \<times> series \<Rightarrow> (table \<times> series) comp" where
  "sweepLoop E p [] st = return_c st"
| "sweepLoop E p (j # js) st = bind_c (sweepPoint E p j st) (sweepLoop E p js)"

definition sweepParameter :: "env \<Rightarrow> table \<Rightarrow> pname \<Rightarrow> series comp" where
  "sweepParameter E ps p =
     (let params = ps in
      bind_c (print_c (key p))
        (\<lambda>_.
      bind_c (sweepLoop E p [0..<11] (params, no_series))
        (\<lambda>st. return_c (snd st))))"

fun sweepAll :: "env \<Rightarrow> table \<Rightarrow> pname list \<Rightarrow> (pname \<times> series) list comp" where
  "sweepAll E ps [] = return_c []"
| "sweepAll E ps (p # rest) =
     bind_c (sweepParameter E ps p)
       (\<lambda>s.
     bind_c (sweepAll E ps rest)
       (\<lambda>done_rest. return_c ((p, s) # done_rest)))"

section \<open>The sweep as the specification describes it\<close>

text \<open>
  The specification describes the outcome of a sweep without the loop: the parameter's
  range is sampled at \<open>min + (j/10) (max - min)\<close> for \<open>j = 0, ..., 10\<close>; the table of a
  sample is the original table with that one value replaced; a sample whose solve yields
  a result contributes one entry, its own value and its own result, to every plotted
  list, and any other sample contributes nothing. These definitions follow that
  description; the theorems below compare them with \<open>sweepLoop\<close> and
  \<open>sweepParameter\<close>, which follow the script.

  \<open>sweep_samples\<close> are the samples as the specification states them, in exact
  arithmetic. \<open>double_samples\<close> are the same expression evaluated in double arithmetic;
  the plotted points are described over these.
\<close>

definition sweep_samples :: "table \<Rightarrow> pname \<Rightarrow> real list" where
  "sweep_samples ps p =
     map (\<lambda>j. fst (p_range (ps p)) + (real j / 10) * (snd (p_range (ps p)) - fst (p_range (ps p))))
       [0..<11]"

definition double_samples :: "table \<Rightarrow> pname \<Rightarrow> real list" where
  "double_samples ps p =
     map (\<lambda>j. dadd (fst (p_range (ps p)))
                (dmul (ddiv (real j) 10) (dsub (snd (p_range (ps p))) (fst (p_range (ps p))))))
       [0..<11]"

definition sample_table :: "table \<Rightarrow> pname \<Rightarrow> real \<Rightarrow> table" where
  "sample_table ps p v = ps(p := (ps p)\<lparr>p_value := v\<rparr>)"

definition solved_at :: "env \<Rightarrow> table \<Rightarrow> pname \<Rightarrow> real \<Rightarrow> (real \<times> result) option" where
  "solved_at E ps p v =
     (case snd (calcUCNSource E (sample_table ps p v)) of
        Inr (Some r) \<Rightarrow> Some (v, r)
      | _ \<Rightarrow> None)"

definition plotted_points :: "env \<Rightarrow> table \<Rightarrow> pname \<Rightarrow> (real \<times> result) list" where
  "plotted_points E ps p = List.map_filter (solved_at E ps p) (double_samples ps p)"

definition series_of :: "(real \<times> result) list \<Rightarrow> series" where
  "series_of pts =
     \<lparr>s_x = map fst pts,
      s_y = map (\<lambda>vr. He_reservoir_flow (snd vr) * 1000) pts,
      s_y2 = map (\<lambda>vr. T_HeII (snd vr)) pts,
      s_y3 = map (\<lambda>vr. T_3He (snd vr)) pts,
      s_y4 = map (\<lambda>vr. T_4He (snd vr)) pts,
      s_y5 = map (\<lambda>vr. He3_flow (snd vr) * 1000) pts,
      s_y6 = map (\<lambda>vr. OneKpot_flow (snd vr) * 1000) pts,
      s_y7 = map (\<lambda>vr. max (shield_flow_20K (snd vr)) (shield_flow_100K (snd vr)) * 1000) pts,
      s_y8 = map (\<lambda>vr. OneKpot_temperature (snd vr)) pts,
      s_y9 = map (\<lambda>vr. T_Cu (snd vr)) pts\<rparr>"

section \<open>A test bench\<close>

text \<open>
  Concrete collaborators on which the script can be run by evaluation. The property
  functions are simple closed forms of the right shape, not helium data: the enthalpy is
  the temperature (plus 20 for saturated vapour), latent heats are constant, and the
  lower limit \<^verbatim>\<open>HeConst(3)\<close> is 0.8. The integrator takes one Euler step over the
  whole interval. The root finder evaluates the equations once at the initial guess,
  reports success when the first residual is at least 1/4, and returns the guess with
  its third component halved. Floats are formatted as a fixed placeholder.
\<close>

definition bench_HeCalc ::
  "hearg \<Rightarrow> int \<Rightarrow> string \<Rightarrow> real \<Rightarrow> string \<Rightarrow> real \<Rightarrow> int \<Rightarrow> real" where
  "bench_HeCalc out ph n1 v1 n2 v2 u =
     (if out = Str ''H'' then (if n1 = ''T'' then v1 else v2) + (if n2 = ''SV'' then 20 else 0)
      else if out = Str ''T'' then 1 + v1 / 100000
      else if out = Num 7 then 20
      else if out = Str ''D'' then 125
      else if out = Str ''P'' then 100 * v1
      else 1)"

definition bench_solve_ivp ::
  "(real \<Rightarrow> real \<Rightarrow> real comp) \<Rightarrow> real \<times> real \<Rightarrow> real \<Rightarrow> real list comp" where
  "bench_solve_ivp f t_span y0 =
     bind_c (f (fst t_span) y0) (\<lambda>d. return_c [y0, y0 + (snd t_span - fst t_span) * d])"

definition bench_root :: "(state \<Rightarrow> state comp) \<Rightarrow> state \<Rightarrow> sol comp" where
  "bench_root f x0 =
     bind_c (f x0)
       (\<lambda>r. return_c \<lparr>success = (1 / 4 \<le> fst r),
                       sol_x = (fst x0, fst (snd x0), snd (snd x0) / 2)\<rparr>)"

definition bench :: env where
  "bench =
     \<lparr>HeConst = (\<lambda>i. if i = 3 then 0.8 else 2077),
      HeCalc = bench_HeCalc,
      He3Density = (\<lambda>P T. 80),
      He3Prop = (\<lambda>i D T. 10 * T),
      He3SaturatedVaporProp = (\<lambda>i T. 10 * T + 30),
      He3SaturatedLiquidProp = (\<lambda>i T. if i = 13 then 30 else 10 * T),
      He3SaturatedTemperature = (\<lambda>P. 0.8),
      He3boilingData = (\<lambda>T q. if q \<le> 100 then Some 0.1 else None),
      solve_ivp = bench_solve_ivp,
      root = bench_root,
      format_3g = (\<lambda>r. ''<float>''),
      float_str = (\<lambda>r. ''<float>'')\<rparr>"

text \<open>
  What \<open>calcUCNSource\<close> returns on the bench wherever its root finder reports success.
\<close>

definition bench_result :: result where
  "bench_result =
     \<lparr>He3_flow = 1 / 500, OneKpot_temperature = 9 / 5, T_4He = 1 / 2,
      He_reservoir_temperature = 11 / 5, OneKpot_flow = - (13 / 2375),
      He_reservoir_flow = 0, He_consumption = - (14976 / 95),
      shield_flow_20K = 147 / 100, shield_flow_100K = 194 / 175,
      Shield_consumption = 42336, T_3He = 4 / 5, T_Cu = 9 / 10,
      HeII_vapor_pressure = 0, HeII_pressure_head = 0, T_HeII = 0\<rparr>"

section \<open>Facts about computations\<close>

lemma bind_return [simp]: "bind_c (return_c v) f = f v"
  by (simp add: bind_c_def return_c_def split: prod.splits)

lemma bind_raise [simp]: "bind_c (raise_c e) f = raise_c e"
  by (simp add: bind_c_def raise_c_def)

lemma bind_print: "bind_c (print_c s) f = (case f () of (l, r) \<Rightarrow> (s # l, r))"
  by (simp add: bind_c_def print_c_def)

lemma bind_print_return [simp]: "bind_c (print_c s) (\<lambda>_. return_c v) = ([s], Inr v)"
  by (simp add: bind_print return_c_def)

lemma pydiv_nonzero: "b \<noteq> 0 \<Longrightarrow> pydiv a b = return_c (a / b)"
  by (simp add: pydiv_def)

lemma pydiv_zero [simp]: "pydiv a 0 = raise_c ZeroDivisor"
  by (simp add: pydiv_def)

lemmas bench_defs = bench_def bench_HeCalc_def bench_solve_ivp_def bench_root_def

section \<open>Facts about double arithmetic\<close>

text \<open>
  The exponent search finds the binary exponent, so a double operation can be evaluated
  by naming the exponent of its exact result.
\<close>

lemma powi_step: "(2::real) powi (e + 1) = 2 * 2 powi e"
  by (simp add: power_int_add)

lemma powi_ge_one: "0 \<le> e \<Longrightarrow> 1 \<le> (2::real) powi e"
  by (simp add: one_le_power_int)

lemma powi_le_one: "e \<le> 0 \<Longrightarrow> (2::real) powi e \<le> 1"
  using power_int_increasing[of e 0 "2::real"] by simp

lemma scale_exp_eq:
  "2 powi e \<le> y \<Longrightarrow> y < 2 powi (e + 1) \<Longrightarrow> nat \<bar>e\<bar> < n \<Longrightarrow> scale_exp n y = e"
proof (induction n arbitrary: y e)
  case 0
  then show ?case by simp
next
  case (Suc n)
  show ?case
  proof (cases "2 \<le> y")
    case True
    have "1 \<le> e"
    proof (rule ccontr)
      assume "\<not> 1 \<le> e"
      then have "e + 1 \<le> 1" by simp
      then have "(2::real) powi (e + 1) \<le> 2 powi 1"
        by (intro power_int_increasing) simp_all
      with Suc.prems(2) True show False by simp
    qed
    have lo: "2 powi (e - 1) \<le> y / 2"
      using Suc.prems(1) powi_step[of "e - 1"] by simp
    have hi: "y / 2 < 2 powi (e - 1 + 1)"
      using Suc.prems(2) powi_step[of e] by simp
    have "nat \<bar>e - 1\<bar> < n" using \<open>1 \<le> e\<close> Suc.prems(3) by simp
    from Suc.IH[OF lo hi this] True show ?thesis by simp
  next
    case False
    show ?thesis
    proof (cases "y < 1")
      case True
      have "e \<le> - 1"
      proof (rule ccontr)
        assume "\<not> e \<le> - 1"
        then have "0 \<le> e" by simp
        then have "1 \<le> (2::real) powi e" by (rule powi_ge_one)
        with Suc.prems(1) True show False by simp
      qed
      have lo: "2 powi (e + 1) \<le> 2 * y"
        using Suc.prems(1) powi_step[of e] by simp
      have hi: "2 * y < 2 powi (e + 1 + 1)"
        using Suc.prems(2) powi_step[of "e + 1"] by simp
      have "nat \<bar>e + 1\<bar> < n" using \<open>e \<le> - 1\<close> Suc.prems(3) by simp
      from Suc.IH[OF lo hi this] False True show ?thesis by simp
    next
      case y1: False
      have "e = 0"
      proof (rule ccontr)
        assume "e \<noteq> 0"
        then consider "1 \<le> e" | "e \<le> - 1" by linarith
        then show False
        proof cases
          case 1
          then have "(2::real) powi 1 \<le> 2 powi e"
            by (intro power_int_increasing) simp_all
          with Suc.prems(1) False show False by simp
        next
          case 2
          then have "(2::real) powi (e + 1) \<le> 1" by (intro powi_le_one) simp
          with Suc.prems(2) y1 show False by simp
        qed
      qed
      with False y1 show ?thesis by simp
    qed
  qed
qed

lemma fl_at:
  assumes "2 powi e \<le> \<bar>x\<bar>" and "\<bar>x\<bar> < 2 powi (e + 1)" and "- 1022 \<le> e" and "e \<le> 1023"
  shows "fl x = 2 powi (e - 52) * of_int (round_even (x / 2 powi (e - 52)))"
proof -
  have "nat \<bar>e\<bar> < 1100" using assms(3,4) by simp
  with assms(1,2) have "scale_exp 1100 \<bar>x\<bar> = e" by (rule scale_exp_eq)
  moreover have "x \<noteq> 0"
  proof
    assume "x = 0"
    with assms(1) have "(2::real) powi e \<le> 0" by simp
    moreover have "0 < (2::real) powi e" by simp
    ultimately show False by simp
  qed
  ultimately show ?thesis using assms(3) by (simp add: fl_def max_absorb1 Let_def)
qed

lemma fl_zero [simp]: "fl 0 = 0"
  by (simp add: fl_def)

text \<open>The doubles that the literals of the ranges denote.\<close>

lemma lit_0_0005: "lit 0.0005 = 1152921504606847 / 2305843009213693952"
  unfolding lit_def by (subst fl_at[where e = "-11"]) (simp_all add: round_even_def power_int_minus)

lemma lit_0_003: "lit 0.003 = 3458764513820541 / 1152921504606846976"
  unfolding lit_def by (subst fl_at[where e = "-9"]) (simp_all add: round_even_def power_int_minus)

lemma lit_0_005: "lit 0.005 = 5764607523034235 / 1152921504606846976"
  unfolding lit_def by (subst fl_at[where e = "-8"]) (simp_all add: round_even_def power_int_minus)

lemma lit_0_01: "lit 0.01 = 5764607523034235 / 576460752303423488"
  unfolding lit_def by (subst fl_at[where e = "-7"]) (simp_all add: round_even_def power_int_minus)

lemma lit_0_1: "lit 0.1 = 3602879701896397 / 36028797018963968"
  unfolding lit_def by (subst fl_at[where e = "-4"]) (simp_all add: round_even_def power_int_minus)

lemma lit_0_2: "lit 0.2 = 3602879701896397 / 18014398509481984"
  unfolding lit_def by (subst fl_at[where e = "-3"]) (simp_all add: round_even_def power_int_minus)

lemma lit_0_6: "lit 0.6 = 5404319552844595 / 9007199254740992"
  unfolding lit_def by (subst fl_at[where e = "-1"]) (simp_all add: round_even_def power_int_minus)

section \<open>Helium cooling load and flow\<close>

lemma enthalpy_quotient:
  fixes a b flow :: real
  assumes "a \<noteq> b"
  shows "flow * (a - b) / (b - a) = - flow"
proof -
  have "b - a \<noteq> 0" using assms by simp
  then show ?thesis by (simp add: field_simps)
qed

text \<open>
  Claim C1, as amended. \<open>HeCoolingLoad\<close> multiplies the flow by the enthalpy at the
  inlet minus the enthalpy at the outlet; \<open>HeCoolingFlow\<close> divides the load by the
  enthalpy at the outlet minus the enthalpy at the inlet. So for an outlet temperature not
  below \<^verbatim>\<open>HeConst(3)\<close> and different enthalpies at inlet and outlet, feeding the load
  of a flow back into \<open>HeCoolingFlow\<close> at the same pressure and temperatures yields the
  flow with its sign reversed, not the flow.
\<close>

theorem HeCoolingFlow_of_HeCoolingLoad_negates:
  assumes "HeConst E 3 \<le> Tout"
    and "HeCalc E (Str ''H'') 0 ''P'' P ''T'' Tin 1 \<noteq> HeCalc E (Str ''H'') 0 ''P'' P ''T'' Tout 1"
  shows "HeCoolingFlow E (HeCoolingLoad E flow P Tin Tout) P Tin Tout = ([], Inr (- flow))"
proof -
  have "max (HeConst E 3) Tout = Tout"
    using assms(1) by (simp add: max_absorb2)
  then have load: "HeCoolingLoad E flow P Tin Tout =
      flow * (HeCalc E (Str ''H'') 0 ''P'' P ''T'' Tin 1 - HeCalc E (Str ''H'') 0 ''P'' P ''T'' Tout 1)"
    by (simp add: HeCoolingLoad_def)
  show ?thesis
    unfolding HeCoolingFlow_def load
    using assms(2) by (simp add: pydiv_def return_c_def enthalpy_quotient)
qed

theorem HeCoolingFlow_of_HeCoolingLoad_negates_witness:
  "HeConst bench 3 \<le> 3
   \<and> HeCalc bench (Str ''H'') 0 ''P'' 100 ''T'' 4 1 \<noteq> HeCalc bench (Str ''H'') 0 ''P'' 100 ''T'' 3 1
   \<and> HeCoolingFlow bench (HeCoolingLoad bench 2 100 4 3) 100 4 3 = ([], Inr (- 2))"
proof -
  have h1: "HeConst bench 3 \<le> 3"
    by (simp add: bench_defs)
  have h2: "HeCalc bench (Str ''H'') 0 ''P'' 100 ''T'' 4 1 \<noteq> HeCalc bench (Str ''H'') 0 ''P'' 100 ''T'' 3 1"
    by (simp add: bench_defs)
  show ?thesis
    using h1 h2 HeCoolingFlow_of_HeCoolingLoad_negates [OF h1 h2, of 2] by simp
qed

text \<open>
  The round trip of claim C1 as the specification states it fails: on the test bench a
  flow of 1 at pressure 100, cooled from 4 to 3 (above the lower limit 0.8), comes back
  as -1.
\<close>

theorem HeCoolingFlow_HeCoolingLoad_roundtrip_fails:
  "(0::real) < 1 \<and> HeConst bench 3 < 3
   \<and> HeCoolingFlow bench (HeCoolingLoad bench 1 100 4 3) 100 4 3 = ([], Inr (- 1))
   \<and> HeCoolingFlow bench (HeCoolingLoad bench 1 100 4 3) 100 4 3 \<noteq> ([], Inr 1)"
  by (simp add: HeCoolingFlow_def HeCoolingLoad_def pydiv_def return_c_def bench_defs)

section \<open>He3 cooling load\<close>

text \<open>
  Claim C2. \<open>He3CoolingLoad\<close> returns the flow times the difference of the He3 enthalpy at
  the inlet state and the He3 density at the outlet state; the enthalpy it computes at
  the outlet is not used.
\<close>

theorem He3CoolingLoad_outlet_density:
  "He3CoolingLoad E flow pressure inletTemperature outletTemperature =
     flow * (He3Prop E 6 (He3Density E pressure inletTemperature) inletTemperature
             - He3Density E pressure outletTemperature)"
  by (simp add: He3CoolingLoad_def)

section \<open>Early returns at zero load\<close>

text \<open>
  Claim C5. For a heat load that is zero or negative \<open>HEX1Temperature\<close> returns the bath
  temperature itself, prints nothing and raises nothing, whatever the geometry.
\<close>

theorem HEX1Temperature_no_load:
  "heatLoad \<le> 0 \<Longrightarrow>
   HEX1Temperature E T_He3 HEX1length HEX1diameter finHeight finPitch heatLoad = ([], Inr T_He3)"
  by (simp add: HEX1Temperature_def return_c_def)

theorem HEX1Temperature_no_load_witness:
  "(- 1::real) \<le> 0 \<and> HEX1Temperature bench 0.8 0.6 0.148 0.001 0 (- 1) = ([], Inr 0.8)
   \<and> HEX1Temperature bench 0.8 0 0 0 0 0 = ([], Inr 0.8)"
proof -
  have h1: "(- 1::real) \<le> 0" by simp
  have h2: "(0::real) \<le> 0" by simp
  show ?thesis
    using h1 HEX1Temperature_no_load [OF h1, of bench "0.8" "0.6" "0.148" "0.001" 0]
      HEX1Temperature_no_load [OF h2, of bench "0.8" 0 0 0 0]
    by simp
qed

text \<open>
  Claim C6. For a heat load of exactly zero \<open>HeIItemperature\<close> returns the boundary
  temperature itself without calling the integrator, whatever the channel length, the
  channel diameter and the pressure.
\<close>

theorem HeIItemperature_zero_load:
  "HeIItemperature E x T_low pressure 0 channelDiameter = ([], Inr T_low)"
  by (simp add: HeIItemperature_def return_c_def)

section \<open>The 1K pot\<close>

text \<open>
  Claim C7. \<open>OneKPotTemperature\<close> at any flow equals \<open>OneKPotTemperature\<close> at that flow
  clamped to the interval from 0 to 0.1, and the flow that enters the pressure relation
  is the clamped one.
\<close>

theorem OneKPotTemperature_clamps_flow:
  "OneKPotTemperature E HeFlow pumpingSpeed pumpInletTemperature pumpingPressureDrop =
     OneKPotTemperature E (min (max HeFlow 0) 0.1) pumpingSpeed pumpInletTemperature
       pumpingPressureDrop
   \<and> OneKPotTemperature E HeFlow pumpingSpeed pumpInletTemperature pumpingPressureDrop =
     bind_c (pydiv (min (max HeFlow 0) 0.1 * HeConst E 4 * pumpInletTemperature)
               (pumpingSpeed / 3600))
       (\<lambda>pumpInletPressure.
          return_c (HeCalc E (Str ''T'') 0 ''P'' (pumpInletPressure + pumpingPressureDrop)
                      ''SL'' 0 1))
   \<and> 0 \<le> min (max HeFlow 0) 0.1 \<and> min (max HeFlow 0) 0.1 \<le> (0.1::real)"
proof -
  have clamp: "max 0 (min HeFlow 0.1) = min (max HeFlow 0) (0.1::real)"
    by (simp add: min_def max_def)
  have idem: "max 0 (min (min (max HeFlow 0) 0.1) 0.1) = min (max HeFlow 0) (0.1::real)"
    by (simp add: min_def max_def)
  show ?thesis
    by (simp add: OneKPotTemperature_def clamp idem)
qed

section \<open>HEX1 and the boiling curve\<close>

lemma math_pi_pos: "0 < math_pi"
  by (simp add: math_pi_def)

lemma HEX1Temperature_positive_load:
  assumes "0 < heatLoad" and "finPitch \<noteq> 0"
  shows "HEX1Temperature E T_He3 HEX1length HEX1diameter finHeight finPitch heatLoad =
     bind_c (pydiv heatLoad
               (HEX1diameter * math_pi * HEX1length / 2
                + (HEX1diameter + 2 * finHeight) * math_pi * HEX1length / 2
                + ((HEX1diameter / 2 + finHeight)\<^sup>2 - (HEX1diameter / 2)\<^sup>2) * math_pi
                  * (HEX1length / finPitch) * 2))
       (\<lambda>q. case He3boilingData E T_He3 q of
          None \<Rightarrow>
            bind_c (print_c ''He3 temperature outside valid boiling temperature range!'')
              (\<lambda>_. return_c T_He3)
        | Some dT \<Rightarrow> return_c (T_He3 + dT))"
proof -
  have fins: "pydiv HEX1length finPitch = return_c (HEX1length / finPitch)"
    using assms(2) by (rule pydiv_nonzero)
  have pos: "\<not> heatLoad \<le> 0" using assms(1) by simp
  show ?thesis
    unfolding HEX1Temperature_def fins bind_return Let_def
    using pos by (rule if_not_P)
qed

text \<open>
  Claim C9. For a positive heat load, when the fin count and the heat flux can be
  computed (the fin pitch and the heat-transfer area are not zero), \<open>HEX1Temperature\<close>
  queries the boiling curve at the bath temperature and the heat flux. If the
  interpolator has no value there, it prints the warning and returns the bath
  temperature; otherwise it returns the bath temperature plus the interpolated
  temperature difference and prints nothing.
\<close>

theorem HEX1Temperature_boiling_curve:
  assumes "0 < heatLoad" and "finPitch \<noteq> 0"
    and "area = HEX1diameter * math_pi * HEX1length / 2
                + (HEX1diameter + 2 * finHeight) * math_pi * HEX1length / 2
                + ((HEX1diameter / 2 + finHeight)\<^sup>2 - (HEX1diameter / 2)\<^sup>2) * math_pi
                  * (HEX1length / finPitch) * 2"
    and "area \<noteq> 0"
  shows "HEX1Temperature E T_He3 HEX1length HEX1diameter finHeight finPitch heatLoad =
     (case He3boilingData E T_He3 (heatLoad / area) of
        None \<Rightarrow> ([''He3 temperature outside valid boiling temperature range!''], Inr T_He3)
      | Some dT \<Rightarrow> ([], Inr (T_He3 + dT)))"
proof -
  have flux: "pydiv heatLoad area = return_c (heatLoad / area)"
    using assms(4) by (rule pydiv_nonzero)
  have "HEX1Temperature E T_He3 HEX1length HEX1diameter finHeight finPitch heatLoad =
     bind_c (pydiv heatLoad area)
       (\<lambda>q. case He3boilingData E T_He3 q of
          None \<Rightarrow>
            bind_c (print_c ''He3 temperature outside valid boiling temperature range!'')
              (\<lambda>_. return_c T_He3)
        | Some dT \<Rightarrow> return_c (T_He3 + dT))"
    unfolding assms(3) using assms(1,2) by (rule HEX1Temperature_positive_load)
  then show ?thesis
    unfolding flux bind_return
    by (simp add: bind_c_def print_c_def return_c_def split: option.splits)
qed

theorem HEX1Temperature_boiling_curve_witness:
  "(0::real) < 1 \<and> (0::real) < 1000 \<and> (1::real) \<noteq> 0 \<and> math_pi \<noteq> 0
   \<and> HEX1Temperature bench 0.8 1 1 0 1 1 = ([], Inr 0.9)
   \<and> HEX1Temperature bench 0.8 1 1 0 1 1000 =
       ([''He3 temperature outside valid boiling temperature range!''], Inr 0.8)"
proof -
  have h1: "(0::real) < 1" and h1': "(0::real) < 1000" and h2: "(1::real) \<noteq> 0" by simp_all
  have h3: "math_pi = 1 * math_pi * 1 / 2 + (1 + 2 * 0) * math_pi * 1 / 2
                + ((1 / 2 + 0)\<^sup>2 - (1 / 2)\<^sup>2) * math_pi * (1 / 1) * 2"
    by simp
  have h4: "math_pi \<noteq> 0" using math_pi_pos by simp
  have inside: "1 / math_pi \<le> 100"
    by (simp add: math_pi_def)
  have outside: "\<not> 1000 / math_pi \<le> 100"
    by (simp add: math_pi_def)
  have data_in: "He3boilingData bench T (1 / math_pi) = Some 0.1" for T
    using inside by (simp add: bench_def)
  have data_out: "He3boilingData bench T (1000 / math_pi) = None" for T
    using outside by (simp add: bench_def)
  show ?thesis
    using h4 HEX1Temperature_boiling_curve [OF h1 h2 h3 h4, of bench "0.8"]
      HEX1Temperature_boiling_curve [OF h1' h2 h3 h4, of bench "0.8"]
    by (simp add: data_in data_out)
qed

section \<open>The He-II channel at negative load\<close>

lemma cube_negative:
  fixes a :: real
  shows "a < 0 \<Longrightarrow> a ^ 3 < 0"
  by (simp add: power3_eq_cube mult_pos_neg mult_neg_neg)

text \<open>
  Claim C10. The early return of \<open>HeIItemperature\<close> tests the heat load for equality
  with zero. For every negative heat load the function therefore goes on to the
  integrator, started at the boundary temperature with the Gorter-Mellink right-hand
  side, and its result is the last point of the integrated profile. Where the channel has
  a diameter, the temperature is in range and the conductivity is positive, that
  right-hand side is the cube of the negative flux over the conductivity, a negative
  slope. \<open>HEX1Temperature\<close> at the same load returns its bath temperature at once.
\<close>

theorem HeIItemperature_negative_load:
  assumes "heatLoad < 0"
  shows "HeIItemperature E x T_low pressure heatLoad channelDiameter =
           bind_c (solve_ivp E (dTdx E pressure heatLoad (math_pi * channelDiameter\<^sup>2 / 4)) (0, x) T_low)
             py_last
         \<and> (channelDiameter \<noteq> 0 \<and> HeConst E 3 \<le> T
              \<and> 0 < HeCalc E (Num 38) 0 ''P'' pressure ''T'' T 1 \<longrightarrow>
            dTdx E pressure heatLoad (math_pi * channelDiameter\<^sup>2 / 4) t T =
              ([], Inr ((heatLoad / (math_pi * channelDiameter\<^sup>2 / 4)) ^ 3
                        / HeCalc E (Num 38) 0 ''P'' pressure ''T'' T 1))
            \<and> (heatLoad / (math_pi * channelDiameter\<^sup>2 / 4)) ^ 3
                / HeCalc E (Num 38) 0 ''P'' pressure ''T'' T 1 < 0)
         \<and> HEX1Temperature E T_He3 HEX1length HEX1diameter finHeight finPitch heatLoad
             = ([], Inr T_He3)"
proof (intro conjI impI)
  show "HeIItemperature E x T_low pressure heatLoad channelDiameter =
           bind_c (solve_ivp E (dTdx E pressure heatLoad (math_pi * channelDiameter\<^sup>2 / 4)) (0, x) T_low)
             py_last"
    using assms by (simp add: HeIItemperature_def Let_def)
next
  assume h: "channelDiameter \<noteq> 0 \<and> HeConst E 3 \<le> T
              \<and> 0 < HeCalc E (Num 38) 0 ''P'' pressure ''T'' T 1"
  let ?A = "math_pi * channelDiameter\<^sup>2 / 4"
  let ?k = "HeCalc E (Num 38) 0 ''P'' pressure ''T'' T 1"
  have A: "0 < ?A" using h math_pi_pos by simp
  then have "heatLoad / ?A < 0" using assms by (simp add: divide_neg_pos)
  then have "(heatLoad / ?A) ^ 3 < 0" by (rule cube_negative)
  then show "(heatLoad / ?A) ^ 3 / ?k < 0" using h by (simp add: divide_neg_pos)
  have "?A \<noteq> 0" using h math_pi_pos by simp
  then have d1: "pydiv heatLoad ?A = return_c (heatLoad / ?A)" by (rule pydiv_nonzero)
  have kpos: "0 < ?k" using h by simp
  then have "?k \<noteq> 0" by simp
  then have d2: "pydiv ((heatLoad / ?A) ^ 3) ?k = return_c ((heatLoad / ?A) ^ 3 / ?k)"
    by (rule pydiv_nonzero)
  have notlow: "\<not> T < HeConst E 3" using h by simp
  show "dTdx E pressure heatLoad ?A t T = ([], Inr ((heatLoad / ?A) ^ 3 / ?k))"
    unfolding dTdx_def Let_def if_not_P[OF notlow] if_P[OF kpos] d1 bind_return d2
    by (simp only: return_c_def)
next
  show "HEX1Temperature E T_He3 HEX1length HEX1diameter finHeight finPitch heatLoad = ([], Inr T_He3)"
    using assms by (simp add: HEX1Temperature_def return_c_def)
qed

theorem HeIItemperature_negative_load_witness:
  "(- 1::real) < 0 \<and> (1::real) \<noteq> 0 \<and> HeConst bench 3 \<le> 1
   \<and> 0 < HeCalc bench (Num 38) 0 ''P'' 100 ''T'' 1 1
   \<and> HeIItemperature bench 2 1 100 (- 1) 1 = ([], Inr (1 + 2 * (- 1 / (math_pi * 1\<^sup>2 / 4)) ^ 3 / 1))
   \<and> 1 + 2 * (- 1 / (math_pi * 1\<^sup>2 / 4)) ^ 3 / 1 < 1
   \<and> HEX1Temperature bench 1 0.6 0.148 0.001 0.002 (- 1) = ([], Inr 1)"
proof -
  have h: "(- 1::real) < 0" by simp
  have g: "(1::real) \<noteq> 0 \<and> HeConst bench 3 \<le> 1 \<and> 0 < HeCalc bench (Num 38) 0 ''P'' 100 ''T'' 1 1"
    by (simp add: bench_defs)
  have k: "HeCalc bench (Num 38) 0 ''P'' 100 ''T'' 1 1 = 1"
    by (simp add: bench_defs)
  note inst = HeIItemperature_negative_load [OF h, of bench 2 1 100 1 1 0 1 "0.6" "0.148" "0.001" "0.002"]
  from inst g have slope:
    "dTdx bench 100 (- 1) (math_pi * 1\<^sup>2 / 4) 0 1 = ([], Inr ((- 1 / (math_pi * 1\<^sup>2 / 4)) ^ 3 / 1))"
    and neg: "(- 1 / (math_pi * 1\<^sup>2 / 4)) ^ 3 / 1 < 0"
    unfolding k by blast+
  from inst have "HeIItemperature bench 2 1 100 (- 1) 1 =
      bind_c (solve_ivp bench (dTdx bench 100 (- 1) (math_pi * 1\<^sup>2 / 4)) (0, 2) 1) py_last"
    by blast
  also have "solve_ivp bench = bench_solve_ivp" by (simp add: bench_def)
  also have "bind_c (bench_solve_ivp (dTdx bench 100 (- 1) (math_pi * 1\<^sup>2 / 4)) (0, 2) 1) py_last
      = ([], Inr (1 + 2 * (- 1 / (math_pi * 1\<^sup>2 / 4)) ^ 3 / 1))"
    unfolding bench_solve_ivp_def fst_conv snd_conv slope
    by (simp add: bind_c_def return_c_def py_last_def raise_c_def)
  finally have run: "HeIItemperature bench 2 1 100 (- 1) 1 =
      ([], Inr (1 + 2 * (- 1 / (math_pi * 1\<^sup>2 / 4)) ^ 3 / 1))" .
  from inst have hex: "HEX1Temperature bench 1 0.6 0.148 0.001 0.002 (- 1) = ([], Inr 1)"
    by blast
  from neg have less: "1 + 2 * (- 1 / (math_pi * 1\<^sup>2 / 4)) ^ 3 / 1 < 1" by simp
  show ?thesis
    using h g run less hex by blast
qed

section \<open>Decomposing computations\<close>

lemma bind_value:
  "m = (l, Inr x) \<Longrightarrow> bind_c m f = (case f x of (l', r) \<Rightarrow> (l @ l', r))"
  by (simp add: bind_c_def)

lemma bind_error: "m = (l, Inl e) \<Longrightarrow> bind_c m f = (l, Inl e)"
  by (simp add: bind_c_def)

lemma bind_Inr_iff:
  "bind_c m f = (l, Inr v) \<longleftrightarrow> (\<exists>l1 x l2. m = (l1, Inr x) \<and> f x = (l2, Inr v) \<and> l = l1 @ l2)"
  by (cases m) (auto simp: bind_c_def split: sum.splits prod.splits)

lemma return_Inr_iff [simp]: "return_c a = (l, Inr v) \<longleftrightarrow> l = [] \<and> a = v"
  by (auto simp: return_c_def)

lemma print_Inr_iff [simp]: "print_c s = (l, Inr v) \<longleftrightarrow> l = [s]"
  by (auto simp: print_c_def)

section \<open>Facts about the solver\<close>

lemma calc_not_converged:
  assumes "root E (\<lambda>x. equationSet E x ps) (0.002, 1.8, 1) = (l, Inr s)" and "\<not> success s"
  shows "calcUCNSource E ps = (l @ [''Solution did not converge!''], Inr None)"
  unfolding calcUCNSource_def bind_value[OF assms(1)]
  using assms(2) by simp

lemma calc_result_needs_success:
  assumes "calcUCNSource E ps = (l', Inr (Some r))"
  shows "\<exists>l0 s0. root E (\<lambda>x. equationSet E x ps) (0.002, 1.8, 1) = (l0, Inr s0) \<and> success s0"
proof (cases "root E (\<lambda>x. equationSet E x ps) (0.002, 1.8, 1)")
  case (Pair l1 res)
  show ?thesis
  proof (cases res)
    case (Inl e)
    with Pair have "calcUCNSource E ps = (l1, Inl e)"
      unfolding calcUCNSource_def by (simp add: bind_error)
    with assms show ?thesis by simp
  next
    case (Inr s1)
    with Pair have r: "root E (\<lambda>x. equationSet E x ps) (0.002, 1.8, 1) = (l1, Inr s1)"
      by simp
    show ?thesis
    proof (cases "success s1")
      case True
      with r show ?thesis by blast
    next
      case False
      with r have "calcUCNSource E ps = (l1 @ [''Solution did not converge!''], Inr None)"
        by (rule calc_not_converged)
      with assms show ?thesis by simp
    qed
  qed
qed

lemma calc_low_branch:
  assumes "calcUCNSource E ps = (lg, Inr (Some r))" and "T_4He r < HeConst E 3"
  shows "HeII_vapor_pressure r = 0 \<and> HeII_pressure_head r = 0 \<and> T_HeII r = 0
         \<and> lg \<noteq> [] \<and> last lg = ''T_4He '' @ format_3g E (T_4He r) @ '' outside HEPAK range!''"
  using assms unfolding calcUCNSource_def
  by (auto simp: bind_Inr_iff Let_def split: if_splits prod.splits)

lemma calc_result_T_4He:
  assumes "calcUCNSource E ps = (lg, Inr (Some r))"
    and "root E (\<lambda>x. equationSet E x ps) (0.002, 1.8, 1) = (l0, Inr s)"
  shows "(He3_flow r, OneKpot_temperature r, T_4He r) = sol_x s"
  using assms unfolding calcUCNSource_def
  by (auto simp: bind_Inr_iff Let_def split: if_splits prod.splits)

lemma calc_never_discards:
  assumes "root E (\<lambda>x. equationSet E x ps) (0.002, 1.8, 1) = (l0, Inr s)" and "success s"
  shows "calcUCNSource E ps \<noteq> (lg, Inr None)"
  using assms unfolding calcUCNSource_def
  by (auto simp: bind_Inr_iff Let_def split: if_splits prod.splits)

section \<open>Facts about the sweep loop\<close>

lemma sweepPoint_skips:
  assumes "calcUCNSource E (params(p := (params p)\<lparr>p_value := sweepValue params p j\<rparr>)) = (l, Inr None)"
  shows "sweepPoint E p j (params, s) =
     ((float_str E (sweepValue params p j) @ '' '' @ p_unit (params p)) # l,
      Inr (params(p := (params p)\<lparr>p_value := sweepValue params p j\<rparr>), s))"
  unfolding sweepPoint_def
  by (simp add: Let_def bind_print bind_value[OF assms] return_c_def)

lemma sweepLoop_skips:
  assumes "calcUCNSource E (params(p := (params p)\<lparr>p_value := sweepValue params p j\<rparr>)) = (l, Inr None)"
  shows "sweepLoop E p (j # js) (params, s) =
     (case sweepLoop E p js (params(p := (params p)\<lparr>p_value := sweepValue params p j\<rparr>), s) of
        (l', r) \<Rightarrow> (((float_str E (sweepValue params p j) @ '' '' @ p_unit (params p)) # l) @ l', r))"
  by (simp add: bind_value[OF sweepPoint_skips[OF assms]])

lemma sample_table_same: "sample_table ps p (p_value (ps p)) = ps"
  by (simp add: sample_table_def)

lemma sample_table_again:
  "(sample_table ps p v0)(p := (sample_table ps p v0 p)\<lparr>p_value := v\<rparr>) = sample_table ps p v"
  by (simp add: sample_table_def)

lemma sweepValue_sample_table: "sweepValue (sample_table ps p v0) p j = sweepValue ps p j"
  by (simp add: sweepValue_def sample_table_def)

lemma sample_table_at: "p_value (sample_table ps p v p) = v" "p_unit (sample_table ps p v p) = p_unit (ps p)"
  by (simp_all add: sample_table_def)

lemma series_of_snoc:
  "(series_of pts)\<lparr>s_x := s_x (series_of pts) @ [v],
              s_y := s_y (series_of pts) @ [He_reservoir_flow r * 1000],
              s_y2 := s_y2 (series_of pts) @ [T_HeII r],
              s_y3 := s_y3 (series_of pts) @ [T_3He r],
              s_y4 := s_y4 (series_of pts) @ [T_4He r],
              s_y5 := s_y5 (series_of pts) @ [He3_flow r * 1000],
              s_y6 := s_y6 (series_of pts) @ [OneKpot_flow r * 1000],
              s_y7 := s_y7 (series_of pts) @ [max (shield_flow_20K r) (shield_flow_100K r) * 1000],
              s_y8 := s_y8 (series_of pts) @ [OneKpot_temperature r],
              s_y9 := s_y9 (series_of pts) @ [T_Cu r]\<rparr> = series_of (pts @ [(v, r)])"
  by (simp add: series_of_def)

lemma sweepPoint_at_sample:
  "sweepPoint E p j (sample_table ps p v0, series_of pts) =
     bind_c (print_c (float_str E (sweepValue ps p j) @ '' '' @ p_unit (ps p)))
       (\<lambda>_. bind_c (calcUCNSource E (sample_table ps p (sweepValue ps p j)))
          (\<lambda>res. case res of
             None \<Rightarrow> return_c (sample_table ps p (sweepValue ps p j), series_of pts)
           | Some r \<Rightarrow> return_c (sample_table ps p (sweepValue ps p j),
                                  series_of (pts @ [(sweepValue ps p j, r)]))))"
  unfolding sweepPoint_def prod.case Let_def sweepValue_sample_table sample_table_again
    sample_table_at series_of_snoc
  by (rule refl)

lemma sweepPoint_result:
  assumes "sweepPoint E p j (sample_table ps p v0, series_of pts) = (lg, Inr st)"
  shows "st = (sample_table ps p (sweepValue ps p j),
               series_of (pts @ List.map_filter (solved_at E ps p) [sweepValue ps p j]))"
  using assms unfolding sweepPoint_at_sample
  by (auto simp: bind_Inr_iff solved_at_def List.map_filter_simps split: option.splits)

lemma sweepLoop_series:
  assumes "sweepLoop E p js (sample_table ps p v0, series_of pts) = (lg, Inr (t', s'))"
  shows "s' = series_of (pts @ List.map_filter (solved_at E ps p) (map (sweepValue ps p) js))"
  using assms
proof (induction js arbitrary: v0 pts lg)
  case Nil
  then show ?case by (simp add: List.map_filter_simps)
next
  case (Cons j js)
  from Cons.prems obtain l1 st l2 where
    pt: "sweepPoint E p j (sample_table ps p v0, series_of pts) = (l1, Inr st)"
    and rest: "sweepLoop E p js st = (l2, Inr (t', s'))"
    by (auto simp: bind_Inr_iff)
  from sweepPoint_result[OF pt] have st: "st = (sample_table ps p (sweepValue ps p j),
               series_of (pts @ List.map_filter (solved_at E ps p) [sweepValue ps p j]))" .
  from Cons.IH[OF rest[unfolded st]] show ?case
    by (simp add: List.map_filter_simps split: option.splits)
qed

lemma double_samples_values: "double_samples ps p = map (sweepValue ps p) [0..<11]"
  by (simp add: double_samples_def sweepValue_def)

lemma sweepParameter_series:
  assumes "sweepParameter E ps p = (lg, Inr s)"
  shows "s = series_of (plotted_points E ps p)"
proof -
  have start: "(ps, no_series) = (sample_table ps p (p_value (ps p)), series_of [])"
    by (simp add: sample_table_same series_of_def no_series_def)
  from assms obtain l2 st where
    loop: "sweepLoop E p [0..<11] (sample_table ps p (p_value (ps p)), series_of []) = (l2, Inr st)"
    and s: "s = snd st"
    unfolding sweepParameter_def Let_def start
    by (auto simp: bind_Inr_iff)
  obtain t' s' where st: "st = (t', s')" by (cases st)
  from sweepLoop_series[OF loop[unfolded st]] s st
  show ?thesis
    by (simp add: plotted_points_def double_samples_values)
qed

section \<open>Running the test bench\<close>

lemmas submodel_defs =
  HeCoolingLoad_def HeCoolingFlow_def He3CoolingLoad_def HeReservoirEvaporation_def
  shieldFlow_def OneKPotTemperature_def OneKPotEvaporation_def He3Flow_def
  He3Temperature_def HEX1Temperature_def He4Temperature_def dTdx_def HeIItemperature_def

lemmas comp_defs = bind_c_def return_c_def raise_c_def print_c_def pydiv_def py_last_def

lemma bench_equationSet:
  assumes others: "\<And>q. q \<noteq> Beam_heating \<Longrightarrow> p_value (ps q) = p_value (parameters q)"
    and beam: "p_value (ps Beam_heating) = b"
    and range: "0 \<le> b" "b \<le> 10"
  shows "\<exists>r2 r3. equationSet bench (0.002, 1.8, 1) ps = ([], Inr ((b + 1) / 20 - 1 / 500, r2, r3))"
  using range
  by (simp add: equationSet_def submodel_defs bench_defs comp_defs math_pi_def Let_def
      power2_eq_square power3_eq_cube others beam)

lemma bench_calc_fails:
  assumes others: "\<And>q. q \<noteq> Beam_heating \<Longrightarrow> p_value (ps q) = p_value (parameters q)"
    and beam: "p_value (ps Beam_heating) = b"
    and range: "0 \<le> b" "b < 101 / 25"
  shows "calcUCNSource bench ps = ([''Solution did not converge!''], Inr None)"
  using range
  apply (simp add: calcUCNSource_def equationSet_def submodel_defs bench_defs comp_defs math_pi_def Let_def
      power2_eq_square power3_eq_cube others beam)
  apply (simp add: field_simps)
  done

lemma bench_calc_converges:
  assumes others: "\<And>q. q \<noteq> Beam_heating \<Longrightarrow> p_value (ps q) = p_value (parameters q)"
    and beam: "p_value (ps Beam_heating) = b"
    and range: "101 / 25 \<le> b" "b \<le> 10"
  shows "calcUCNSource bench ps = ([''T_4He <float> outside HEPAK range!''],
  Inr (Some
        \<lparr>He3_flow = 1 / 500, OneKpot_temperature = 9 / 5, T_4He = 1 / 2,
           He_reservoir_temperature = 11 / 5, OneKpot_flow = - (13 / 2375),
           He_reservoir_flow = 0, He_consumption = - (14976 / 95),
           shield_flow_20K = 147 / 100, shield_flow_100K = 194 / 175,
           Shield_consumption = 42336, T_3He = 4 / 5, T_Cu = 9 / 10,
           HeII_vapor_pressure = 0, HeII_pressure_head = 0, T_HeII = 0\<rparr>))"
  using range
  apply (simp add: calcUCNSource_def equationSet_def submodel_defs bench_defs comp_defs math_pi_def Let_def
      power2_eq_square power3_eq_cube others beam)
  apply (simp add: field_simps)
  done

lemma bench_root_result:
  assumes others: "\<And>q. q \<noteq> Beam_heating \<Longrightarrow> p_value (ps q) = p_value (parameters q)"
    and beam: "p_value (ps Beam_heating) = b"
    and range: "0 \<le> b" "b \<le> 10"
  shows "root bench (\<lambda>x. equationSet bench x ps) (0.002, 1.8, 1) =
           ([], Inr \<lparr>success = (101 / 25 \<le> b), sol_x = (0.002, 1.8, 1 / 2)\<rparr>)"
proof -
  from bench_equationSet[OF others beam range] obtain r2 r3 where
    eq: "equationSet bench (0.002, 1.8, 1) ps = ([], Inr ((b + 1) / 20 - 1 / 500, r2, r3))"
    by blast
  have r: "root bench = bench_root" by (simp add: bench_def)
  show ?thesis
    unfolding r bench_root_def eq
    by (simp add: bind_c_def return_c_def) argo
qed

lemma bench_sample_fails:
  assumes "0 \<le> v" and "v < 101 / 25"
  shows "calcUCNSource bench (sample_table parameters Beam_heating v) =
           ([''Solution did not converge!''], Inr None)"
  using assms by (intro bench_calc_fails[where b = v]) (simp_all add: sample_table_def)

lemma bench_sample_converges:
  assumes "101 / 25 \<le> v" and "v \<le> 10"
  shows "calcUCNSource bench (sample_table parameters Beam_heating v) =
           ([''T_4He <float> outside HEPAK range!''], Inr (Some bench_result))"
  unfolding bench_result_def
  using assms by (intro bench_calc_converges[where b = v]) (simp_all add: sample_table_def)

lemma bench_default_converges:
  "calcUCNSource bench parameters =
     ([''T_4He <float> outside HEPAK range!''], Inr (Some bench_result))"
  unfolding bench_result_def
  by (rule bench_calc_converges[where b = "8.1"]) simp_all

text \<open>The samples of the beam heating, from 0 to 10 W, are the integers.\<close>

lemma beam_sample_0: "sweepValue parameters Beam_heating 0 = 0"
proof -
  have d: "dsub 10 0 = 10"
    unfolding dsub_def by (subst fl_at[where e = "3"]) (simp_all add: round_even_def power_int_minus)
  have q: "ddiv 0 10 = 0"
    by (simp add: ddiv_def fl_def)
  have m: "dmul 0 10 = 0"
    by (simp add: dmul_def fl_def)
  have a: "dadd 0 0 = 0"
    by (simp add: dadd_def fl_def)
  show ?thesis
    unfolding sweepValue_def parameters.simps parameter.select_convs fst_conv snd_conv
      of_nat_0  d q m a
    by (rule refl)
qed

lemma beam_sample_1: "sweepValue parameters Beam_heating 1 = 1"
proof -
  have d: "dsub 10 0 = 10"
    unfolding dsub_def by (subst fl_at[where e = "3"]) (simp_all add: round_even_def power_int_minus)
  have q: "ddiv 1 10 = 3602879701896397 / 36028797018963968"
    unfolding ddiv_def by (subst fl_at[where e = "-4"]) (simp_all add: round_even_def power_int_minus)
  have m: "dmul (3602879701896397 / 36028797018963968) 10 = 1"
    unfolding dmul_def by (subst fl_at[where e = "0"]) (simp_all add: round_even_def power_int_minus)
  have a: "dadd 0 1 = 1"
    unfolding dadd_def by (subst fl_at[where e = "0"]) (simp_all add: round_even_def power_int_minus)
  show ?thesis
    unfolding sweepValue_def parameters.simps parameter.select_convs fst_conv snd_conv
      of_nat_1  d q m a
    by (rule refl)
qed

lemma beam_sample_2: "sweepValue parameters Beam_heating 2 = 2"
proof -
  have d: "dsub 10 0 = 10"
    unfolding dsub_def by (subst fl_at[where e = "3"]) (simp_all add: round_even_def power_int_minus)
  have q: "ddiv 2 10 = 3602879701896397 / 18014398509481984"
    unfolding ddiv_def by (subst fl_at[where e = "-3"]) (simp_all add: round_even_def power_int_minus)
  have m: "dmul (3602879701896397 / 18014398509481984) 10 = 2"
    unfolding dmul_def by (subst fl_at[where e = "1"]) (simp_all add: round_even_def power_int_minus)
  have a: "dadd 0 2 = 2"
    unfolding dadd_def by (subst fl_at[where e = "1"]) (simp_all add: round_even_def power_int_minus)
  show ?thesis
    unfolding sweepValue_def parameters.simps parameter.select_convs fst_conv snd_conv
      of_nat_numeral  d q m a
    by (rule refl)
qed

lemma beam_sample_3: "sweepValue parameters Beam_heating 3 = 3"
proof -
  have d: "dsub 10 0 = 10"
    unfolding dsub_def by (subst fl_at[where e = "3"]) (simp_all add: round_even_def power_int_minus)
  have q: "ddiv 3 10 = 5404319552844595 / 18014398509481984"
    unfolding ddiv_def by (subst fl_at[where e = "-2"]) (simp_all add: round_even_def power_int_minus)
  have m: "dmul (5404319552844595 / 18014398509481984) 10 = 3"
    unfolding dmul_def by (subst fl_at[where e = "1"]) (simp_all add: round_even_def power_int_minus)
  have a: "dadd 0 3 = 3"
    unfolding dadd_def by (subst fl_at[where e = "1"]) (simp_all add: round_even_def power_int_minus)
  show ?thesis
    unfolding sweepValue_def parameters.simps parameter.select_convs fst_conv snd_conv
      of_nat_numeral  d q m a
    by (rule refl)
qed

lemma beam_sample_4: "sweepValue parameters Beam_heating 4 = 4"
proof -
  have d: "dsub 10 0 = 10"
    unfolding dsub_def by (subst fl_at[where e = "3"]) (simp_all add: round_even_def power_int_minus)
  have q: "ddiv 4 10 = 3602879701896397 / 9007199254740992"
    unfolding ddiv_def by (subst fl_at[where e = "-2"]) (simp_all add: round_even_def power_int_minus)
  have m: "dmul (3602879701896397 / 9007199254740992) 10 = 4"
    unfolding dmul_def by (subst fl_at[where e = "2"]) (simp_all add: round_even_def power_int_minus)
  have a: "dadd 0 4 = 4"
    unfolding dadd_def by (subst fl_at[where e = "2"]) (simp_all add: round_even_def power_int_minus)
  show ?thesis
    unfolding sweepValue_def parameters.simps parameter.select_convs fst_conv snd_conv
      of_nat_numeral  d q m a
    by (rule refl)
qed

lemma beam_sample_5: "sweepValue parameters Beam_heating 5 = 5"
proof -
  have d: "dsub 10 0 = 10"
    unfolding dsub_def by (subst fl_at[where e = "3"]) (simp_all add: round_even_def power_int_minus)
  have q: "ddiv 5 10 = 1 / 2"
    unfolding ddiv_def by (subst fl_at[where e = "-1"]) (simp_all add: round_even_def power_int_minus)
  have m: "dmul (1 / 2) 10 = 5"
    unfolding dmul_def by (subst fl_at[where e = "2"]) (simp_all add: round_even_def power_int_minus)
  have a: "dadd 0 5 = 5"
    unfolding dadd_def by (subst fl_at[where e = "2"]) (simp_all add: round_even_def power_int_minus)
  show ?thesis
    unfolding sweepValue_def parameters.simps parameter.select_convs fst_conv snd_conv
      of_nat_numeral  d q m a
    by (rule refl)
qed

lemma beam_sample_6: "sweepValue parameters Beam_heating 6 = 6"
proof -
  have d: "dsub 10 0 = 10"
    unfolding dsub_def by (subst fl_at[where e = "3"]) (simp_all add: round_even_def power_int_minus)
  have q: "ddiv 6 10 = 5404319552844595 / 9007199254740992"
    unfolding ddiv_def by (subst fl_at[where e = "-1"]) (simp_all add: round_even_def power_int_minus)
  have m: "dmul (5404319552844595 / 9007199254740992) 10 = 6"
    unfolding dmul_def by (subst fl_at[where e = "2"]) (simp_all add: round_even_def power_int_minus)
  have a: "dadd 0 6 = 6"
    unfolding dadd_def by (subst fl_at[where e = "2"]) (simp_all add: round_even_def power_int_minus)
  show ?thesis
    unfolding sweepValue_def parameters.simps parameter.select_convs fst_conv snd_conv
      of_nat_numeral  d q m a
    by (rule refl)
qed

lemma beam_sample_7: "sweepValue parameters Beam_heating 7 = 7"
proof -
  have d: "dsub 10 0 = 10"
    unfolding dsub_def by (subst fl_at[where e = "3"]) (simp_all add: round_even_def power_int_minus)
  have q: "ddiv 7 10 = 3152519739159347 / 4503599627370496"
    unfolding ddiv_def by (subst fl_at[where e = "-1"]) (simp_all add: round_even_def power_int_minus)
  have m: "dmul (3152519739159347 / 4503599627370496) 10 = 7"
    unfolding dmul_def by (subst fl_at[where e = "2"]) (simp_all add: round_even_def power_int_minus)
  have a: "dadd 0 7 = 7"
    unfolding dadd_def by (subst fl_at[where e = "2"]) (simp_all add: round_even_def power_int_minus)
  show ?thesis
    unfolding sweepValue_def parameters.simps parameter.select_convs fst_conv snd_conv
      of_nat_numeral  d q m a
    by (rule refl)
qed

lemma beam_sample_8: "sweepValue parameters Beam_heating 8 = 8"
proof -
  have d: "dsub 10 0 = 10"
    unfolding dsub_def by (subst fl_at[where e = "3"]) (simp_all add: round_even_def power_int_minus)
  have q: "ddiv 8 10 = 3602879701896397 / 4503599627370496"
    unfolding ddiv_def by (subst fl_at[where e = "-1"]) (simp_all add: round_even_def power_int_minus)
  have m: "dmul (3602879701896397 / 4503599627370496) 10 = 8"
    unfolding dmul_def by (subst fl_at[where e = "3"]) (simp_all add: round_even_def power_int_minus)
  have a: "dadd 0 8 = 8"
    unfolding dadd_def by (subst fl_at[where e = "3"]) (simp_all add: round_even_def power_int_minus)
  show ?thesis
    unfolding sweepValue_def parameters.simps parameter.select_convs fst_conv snd_conv
      of_nat_numeral  d q m a
    by (rule refl)
qed

lemma beam_sample_9: "sweepValue parameters Beam_heating 9 = 9"
proof -
  have d: "dsub 10 0 = 10"
    unfolding dsub_def by (subst fl_at[where e = "3"]) (simp_all add: round_even_def power_int_minus)
  have q: "ddiv 9 10 = 8106479329266893 / 9007199254740992"
    unfolding ddiv_def by (subst fl_at[where e = "-1"]) (simp_all add: round_even_def power_int_minus)
  have m: "dmul (8106479329266893 / 9007199254740992) 10 = 9"
    unfolding dmul_def by (subst fl_at[where e = "3"]) (simp_all add: round_even_def power_int_minus)
  have a: "dadd 0 9 = 9"
    unfolding dadd_def by (subst fl_at[where e = "3"]) (simp_all add: round_even_def power_int_minus)
  show ?thesis
    unfolding sweepValue_def parameters.simps parameter.select_convs fst_conv snd_conv
      of_nat_numeral  d q m a
    by (rule refl)
qed

lemma beam_sample_10: "sweepValue parameters Beam_heating 10 = 10"
proof -
  have d: "dsub 10 0 = 10"
    unfolding dsub_def by (subst fl_at[where e = "3"]) (simp_all add: round_even_def power_int_minus)
  have q: "ddiv 10 10 = 1"
    unfolding ddiv_def by (subst fl_at[where e = "0"]) (simp_all add: round_even_def power_int_minus)
  have m: "dmul 1 10 = 10"
    unfolding dmul_def by (subst fl_at[where e = "3"]) (simp_all add: round_even_def power_int_minus)
  have a: "dadd 0 10 = 10"
    unfolding dadd_def by (subst fl_at[where e = "3"]) (simp_all add: round_even_def power_int_minus)
  show ?thesis
    unfolding sweepValue_def parameters.simps parameter.select_convs fst_conv snd_conv
      of_nat_numeral  d q m a
    by (rule refl)
qed

lemma upt_11: "[0..<11] = [0, 1, 2, 3, 4, 5, 6, 7, 8, 9, 10::nat]"
  by (simp add: upt_rec)

lemma bench_sweepValue:
  assumes "j \<le> 10"
  shows "sweepValue parameters Beam_heating j = real j"
proof -
  from assms have "j \<in> set [0..<11]" by simp
  then have "j = 0 \<or> j = 1 \<or> j = 2 \<or> j = 3 \<or> j = 4 \<or> j = 5
      \<or> j = 6 \<or> j = 7 \<or> j = 8 \<or> j = 9 \<or> j = 10"
    unfolding upt_11 by simp
  then show ?thesis
    by (auto simp: beam_sample_0 beam_sample_1[unfolded One_nat_def] beam_sample_2 beam_sample_3 beam_sample_4
         beam_sample_5 beam_sample_6 beam_sample_7 beam_sample_8 beam_sample_9 beam_sample_10)
qed

lemma bench_step_fail:
  assumes "j \<le> 4"
  shows "sweepPoint bench Beam_heating j (sample_table parameters Beam_heating v0, series_of pts) =
     ([''<float> W'', ''Solution did not converge!''],
      Inr (sample_table parameters Beam_heating (real j), series_of pts))"
proof -
  have fmt: "float_str bench = (\<lambda>r. ''<float>'')" by (simp add: bench_def)
  have sv: "sweepValue parameters Beam_heating j = real j"
    using assms by (intro bench_sweepValue) simp
  have calc: "calcUCNSource bench (sample_table parameters Beam_heating (real j)) =
           ([''Solution did not converge!''], Inr None)"
    using assms by (intro bench_sample_fails) simp_all
  show ?thesis
    unfolding sweepPoint_at_sample sv fmt calc
    by (simp add: bind_c_def print_c_def return_c_def)
qed

lemma bench_step_converges:
  assumes "5 \<le> j" and "j \<le> 10"
  shows "sweepPoint bench Beam_heating j (sample_table parameters Beam_heating v0, series_of pts) =
     ([''<float> W'', ''T_4He <float> outside HEPAK range!''],
      Inr (sample_table parameters Beam_heating (real j), series_of (pts @ [(real j, bench_result)])))"
proof -
  have fmt: "float_str bench = (\<lambda>r. ''<float>'')" by (simp add: bench_def)
  have sv: "sweepValue parameters Beam_heating j = real j"
    using assms by (intro bench_sweepValue) simp
  have calc: "calcUCNSource bench (sample_table parameters Beam_heating (real j)) =
           ([''T_4He <float> outside HEPAK range!''], Inr (Some bench_result))"
    using assms by (intro bench_sample_converges) simp_all
  show ?thesis
    unfolding sweepPoint_at_sample sv fmt calc
    by (simp add: bind_c_def print_c_def return_c_def)
qed

lemma bench_sweep:
  "sweepParameter bench parameters Beam_heating =
     ([''Beam heating'',
       ''<float> W'', ''Solution did not converge!'',
       ''<float> W'', ''Solution did not converge!'',
       ''<float> W'', ''Solution did not converge!'',
       ''<float> W'', ''Solution did not converge!'',
       ''<float> W'', ''Solution did not converge!'',
       ''<float> W'', ''T_4He <float> outside HEPAK range!'',
       ''<float> W'', ''T_4He <float> outside HEPAK range!'',
       ''<float> W'', ''T_4He <float> outside HEPAK range!'',
       ''<float> W'', ''T_4He <float> outside HEPAK range!'',
       ''<float> W'', ''T_4He <float> outside HEPAK range!'',
       ''<float> W'', ''T_4He <float> outside HEPAK range!''],
      Inr (series_of [(5, bench_result), (6, bench_result), (7, bench_result),
                      (8, bench_result), (9, bench_result), (10, bench_result)]))"
proof -
  have s0: "series_of [] = no_series"
    by (simp add: series_of_def no_series_def)
  have start: "(parameters, no_series) =
      (sample_table parameters Beam_heating (p_value (parameters Beam_heating)), series_of [])"
    unfolding sample_table_same s0 by (rule refl)
  show ?thesis
    unfolding sweepParameter_def Let_def start upt_11 sweepLoop.simps
    by (simp add: bench_step_fail bench_step_converges bind_c_def print_c_def return_c_def)
qed

section \<open>Convergence failure\<close>

text \<open>
  Claim C3. When the root finder returns without success, \<open>calcUCNSource\<close> prints
  that the solution did not converge and returns \<open>None\<close>, after whatever the root
  finder printed. Whenever \<open>calcUCNSource\<close> returns a result record, the root finder
  had returned with success. In the sweep, a point at which \<open>calcUCNSource\<close> returns
  \<open>None\<close> leaves the plotted lists as they were, and the loop goes on with the
  remaining points.
\<close>

theorem calcUCNSource_no_convergence:
  "(root E (\<lambda>x. equationSet E x ps) (0.002, 1.8, 1) = (l, Inr s) \<and> \<not> success s \<longrightarrow>
      calcUCNSource E ps = (l @ [''Solution did not converge!''], Inr None))
   \<and> (calcUCNSource E ps = (l', Inr (Some r)) \<longrightarrow>
      (\<exists>l0 s0. root E (\<lambda>x. equationSet E x ps) (0.002, 1.8, 1) = (l0, Inr s0) \<and> success s0))
   \<and> (calcUCNSource E (params(p := (params p)\<lparr>p_value := sweepValue params p j\<rparr>))
        = (l'', Inr None) \<longrightarrow>
      sweepLoop E p (j # js) (params, sr) =
        (case sweepLoop E p js (params(p := (params p)\<lparr>p_value := sweepValue params p j\<rparr>), sr) of
           (lg, res) \<Rightarrow>
             (((float_str E (sweepValue params p j) @ '' '' @ p_unit (params p)) # l'') @ lg, res)))"
proof (intro conjI impI)
  assume "root E (\<lambda>x. equationSet E x ps) (0.002, 1.8, 1) = (l, Inr s) \<and> \<not> success s"
  then show "calcUCNSource E ps = (l @ [''Solution did not converge!''], Inr None)"
    using calc_not_converged by blast
next
  assume "calcUCNSource E ps = (l', Inr (Some r))"
  then show "\<exists>l0 s0. root E (\<lambda>x. equationSet E x ps) (0.002, 1.8, 1) = (l0, Inr s0) \<and> success s0"
    by (rule calc_result_needs_success)
next
  assume "calcUCNSource E (params(p := (params p)\<lparr>p_value := sweepValue params p j\<rparr>))
        = (l'', Inr None)"
  then show "sweepLoop E p (j # js) (params, sr) =
        (case sweepLoop E p js (params(p := (params p)\<lparr>p_value := sweepValue params p j\<rparr>), sr) of
           (lg, res) \<Rightarrow>
             (((float_str E (sweepValue params p j) @ '' '' @ p_unit (params p)) # l'') @ lg, res))"
    by (rule sweepLoop_skips)
qed

theorem calcUCNSource_no_convergence_witness:
  "root bench (\<lambda>x. equationSet bench x (sample_table parameters Beam_heating 0)) (0.002, 1.8, 1)
     = ([], Inr \<lparr>success = False, sol_x = (0.002, 1.8, 1 / 2)\<rparr>)
   \<and> calcUCNSource bench (sample_table parameters Beam_heating 0)
     = ([''Solution did not converge!''], Inr None)
   \<and> calcUCNSource bench parameters
     = ([''T_4He <float> outside HEPAK range!''], Inr (Some bench_result))
   \<and> (\<exists>l0 s0. root bench (\<lambda>x. equationSet bench x parameters) (0.002, 1.8, 1) = (l0, Inr s0)
        \<and> success s0)
   \<and> sweepLoop bench Beam_heating [0, 5] (parameters, no_series)
     = ([''<float> W'', ''Solution did not converge!'',
         ''<float> W'', ''T_4He <float> outside HEPAK range!''],
        Inr (sample_table parameters Beam_heating 5, series_of [(5, bench_result)]))"
proof -
  have rt: "root bench (\<lambda>x. equationSet bench x (sample_table parameters Beam_heating 0))
      (0.002, 1.8, 1) = ([], Inr \<lparr>success = False, sol_x = (0.002, 1.8, 1 / 2)\<rparr>)"
    using bench_root_result[where ps = "sample_table parameters Beam_heating 0" and b = 0]
    by (simp add: sample_table_def)
  have nosucc: "\<not> success \<lparr>success = False, sol_x = (0.002, 1.8, 1 / 2)\<rparr>" by simp
  have dflt: "calcUCNSource bench parameters
     = ([''T_4He <float> outside HEPAK range!''], Inr (Some bench_result))"
    by (rule bench_default_converges)
  have tbl: "parameters(Beam_heating := (parameters Beam_heating)\<lparr>p_value := sweepValue parameters Beam_heating 0\<rparr>)
      = sample_table parameters Beam_heating 0"
    by (simp add: sample_table_def beam_sample_0)
  have pt0: "calcUCNSource bench
      (parameters(Beam_heating := (parameters Beam_heating)\<lparr>p_value := sweepValue parameters Beam_heating 0\<rparr>))
      = ([''Solution did not converge!''], Inr None)"
    unfolding tbl by (rule bench_sample_fails) simp_all
  have s0: "series_of [] = no_series"
    by (simp add: series_of_def no_series_def)
  have rest: "sweepLoop bench Beam_heating [5] (sample_table parameters Beam_heating 0, no_series)
      = ([''<float> W'', ''T_4He <float> outside HEPAK range!''],
         Inr (sample_table parameters Beam_heating 5, series_of [(5, bench_result)]))"
    unfolding s0[symmetric] sweepLoop.simps
    by (simp add: bench_step_converges bind_c_def return_c_def)
  note inst = calcUCNSource_no_convergence
      [of bench "sample_table parameters Beam_heating 0" "[]"
          "\<lparr>success = False, sol_x = (0.002, 1.8, 1 / 2)\<rparr>" _ _ parameters Beam_heating 0
          "[''Solution did not converge!'']" "[5]" no_series]
  note inst2 = calcUCNSource_no_convergence
      [of bench parameters _ _ "[''T_4He <float> outside HEPAK range!'']" bench_result]
  from inst rt nosucc have a: "calcUCNSource bench (sample_table parameters Beam_heating 0)
     = ([''Solution did not converge!''], Inr None)"
    by simp
  from inst2 dflt have b: "\<exists>l0 s0. root bench (\<lambda>x. equationSet bench x parameters) (0.002, 1.8, 1)
      = (l0, Inr s0) \<and> success s0"
    by blast
  from inst pt0 have "sweepLoop bench Beam_heating [0, 5] (parameters, no_series) =
        (case sweepLoop bench Beam_heating [5]
            (parameters(Beam_heating := (parameters Beam_heating)\<lparr>p_value := sweepValue parameters Beam_heating 0\<rparr>), no_series) of
           (lg, res) \<Rightarrow>
             (((float_str bench (sweepValue parameters Beam_heating 0) @ '' '' @ p_unit (parameters Beam_heating))
               # [''Solution did not converge!'']) @ lg, res))"
    by blast
  then have c: "sweepLoop bench Beam_heating [0, 5] (parameters, no_series)
     = ([''<float> W'', ''Solution did not converge!'',
         ''<float> W'', ''T_4He <float> outside HEPAK range!''],
        Inr (sample_table parameters Beam_heating 5, series_of [(5, bench_result)]))"
    unfolding tbl rest by (simp add: bench_def)
  from rt a dflt b c show ?thesis by blast
qed

section \<open>An interface temperature below the valid range\<close>

text \<open>
  Claim C4. Let the root finder return with success and with a third unknown, the He-4
  interface temperature, below \<^verbatim>\<open>HeConst(3)\<close>, and let the quantities that
  \<open>calcUCNSource\<close> derives before it looks at that temperature have values: the
  evaporation of the 1K pot and of the reservoir, the shield flows, the He-3 temperature
  and the temperature of HEX1, with a liquid density that is not zero. Then
  \<open>calcUCNSource\<close> returns the result record. Its entry \<^verbatim>\<open>'T_4He'\<close> is that
  temperature, its entries \<^verbatim>\<open>'HeII vapor pressure'\<close>, \<^verbatim>\<open>'HeII pressure head'\<close> and
  \<^verbatim>\<open>'T_HeII'\<close> are exactly zero, and the last line printed is the diagnostic that
  names the temperature.
\<close>

theorem calcUCNSource_below_range:
  assumes solved: "root E (\<lambda>x. equationSet E x ps) (0.002, 1.8, 1) = (l0, Inr s)"
    and converged: "success s"
    and unknowns: "sol_x s = (flow3, T_pot, T4)"
    and below: "T4 < HeConst E 3"
    and pot: "OneKPotEvaporation E flow3 (p_value (ps He3_inlet_pressure))
                (p_value (ps OneKpot_inlet_temperature)) (p_value (ps Isopure_He_flow))
                (p_value (ps Isopure_He_pressure))
                (HeCalc E (Str ''T'') 0 ''P'' (p_value (ps He_reservoir_pressure)) ''SV'' 0 1)
                (p_value (ps He_reservoir_pressure)) (p_value (ps OneKpot_inlet_temperature))
                T_pot = (l1, Inr pot_flow)"
    and reservoir: "HeReservoirEvaporation E flow3 (p_value (ps He3_inlet_pressure))
                (p_value (ps He_reservoir_inlet_temperature)) (p_value (ps Isopure_He_flow))
                (p_value (ps Isopure_He_pressure)) (p_value (ps Isopure_He_inlet_temperature))
                (p_value (ps He_reservoir_pressure)) = (l2, Inr reservoir_flow)"
    and density: "HeCalc E (Str ''D'') 0 ''P'' 101300 ''SL'' 0 1 \<noteq> 0"
    and shields: "shieldFlow E (p_value (ps Isopure_He_flow)) (p_value (ps Isopure_He_pressure))
                (p_value (ps He_reservoir_pressure)) = (l3, Inr (flow_20, flow_100))"
    and he3: "He3Temperature E flow3 (p_value (ps He3_pumping_speed))
                (p_value (ps Pump_inlet_temperature)) (p_value (ps He3_pressure_drop))
                = (l4, Inr T3)"
    and hex1: "HEX1Temperature E T3 (p_value (ps HEX1_length)) (p_value (ps Channel_diameter))
                (p_value (ps HEX1_fin_height)) (p_value (ps HEX1_fin_pitch))
                (p_value (ps Beam_heating) + p_value (ps Static_heat)
                 + HeCoolingLoad E (p_value (ps Isopure_He_flow))
                     (p_value (ps Isopure_He_pressure)) T_pot T4)
                = (l5, Inr T_copper)"
  shows "calcUCNSource E ps =
    (l0 @ l1 @ l2 @ l3 @ l3 @ l4 @ l5 @ [''T_4He '' @ format_3g E T4 @ '' outside HEPAK range!''],
     Inr (Some
       \<lparr>He3_flow = flow3, OneKpot_temperature = T_pot, T_4He = T4,
        He_reservoir_temperature =
          HeCalc E (Str ''T'') 0 ''P'' (p_value (ps He_reservoir_pressure)) ''SV'' 0 1,
        OneKpot_flow = pot_flow, He_reservoir_flow = reservoir_flow,
        He_consumption =
          (reservoir_flow + pot_flow) / HeCalc E (Str ''D'') 0 ''P'' 101300 ''SL'' 0 1
          * 1000 * 3600,
        shield_flow_20K = flow_20, shield_flow_100K = flow_100,
        Shield_consumption =
          max flow_20 flow_100 / HeCalc E (Str ''D'') 0 ''P'' 101300 ''SL'' 0 1 * 1000 * 3600,
        T_3He = T3, T_Cu = T_copper,
        HeII_vapor_pressure = 0, HeII_pressure_head = 0, T_HeII = 0\<rparr>))"
proof -
  have d1: "pydiv (reservoir_flow + pot_flow) (HeCalc E (Str ''D'') 0 ''P'' 101300 ''SL'' 0 1)
      = ([], Inr ((reservoir_flow + pot_flow) / HeCalc E (Str ''D'') 0 ''P'' 101300 ''SL'' 0 1))"
    using density by (simp add: pydiv_def return_c_def)
  have d2: "pydiv (max flow_20 flow_100) (HeCalc E (Str ''D'') 0 ''P'' 101300 ''SL'' 0 1)
      = ([], Inr (max flow_20 flow_100 / HeCalc E (Str ''D'') 0 ''P'' 101300 ''SL'' 0 1))"
    using density by (simp add: pydiv_def return_c_def)
  show ?thesis
    unfolding calcUCNSource_def bind_value[OF solved]
    using converged below
    by (simp add: unknowns Let_def bind_value[OF pot] bind_value[OF reservoir]
        bind_value[OF d1] bind_value[OF shields] bind_value[OF d2] bind_value[OF he3]
        bind_value[OF hex1] bind_print return_c_def)
qed

theorem calcUCNSource_below_range_witness:
  "root bench (\<lambda>x. equationSet bench x parameters) (0.002, 1.8, 1)
     = ([], Inr \<lparr>success = True, sol_x = (0.002, 1.8, 1 / 2)\<rparr>)
   \<and> (1 / 2 :: real) < HeConst bench 3
   \<and> calcUCNSource bench parameters
     = ([''T_4He '' @ format_3g bench (1 / 2) @ '' outside HEPAK range!''],
        Inr (Some bench_result))
   \<and> T_4He bench_result = 1 / 2
   \<and> HeII_vapor_pressure bench_result = 0 \<and> HeII_pressure_head bench_result = 0
   \<and> T_HeII bench_result = 0"
proof -
  let ?s = "\<lparr>success = True, sol_x = (0.002, 1.8, 1 / 2)\<rparr>"
  have solved: "root bench (\<lambda>x. equationSet bench x parameters) (0.002, 1.8, 1) = ([], Inr ?s)"
    using bench_root_result[where ps = parameters and b = "8.1"] by simp
  have converged: "success ?s" by simp
  have unknowns: "sol_x ?s = (0.002, 1.8, 1 / 2)" by simp
  have below: "(1 / 2 :: real) < HeConst bench 3" by (simp add: bench_def)
  have density: "HeCalc bench (Str ''D'') 0 ''P'' 101300 ''SL'' 0 1 \<noteq> 0"
    by (simp add: bench_defs)
  have pot: "OneKPotEvaporation bench 0.002 (p_value (parameters He3_inlet_pressure))
                (p_value (parameters OneKpot_inlet_temperature)) (p_value (parameters Isopure_He_flow))
                (p_value (parameters Isopure_He_pressure))
                (HeCalc bench (Str ''T'') 0 ''P'' (p_value (parameters He_reservoir_pressure)) ''SV'' 0 1)
                (p_value (parameters He_reservoir_pressure)) (p_value (parameters OneKpot_inlet_temperature))
                1.8 = ([], Inr (- (13 / 2375)))"
    by (simp add: submodel_defs bench_defs comp_defs Let_def)
  have reservoir: "HeReservoirEvaporation bench 0.002 (p_value (parameters He3_inlet_pressure))
                (p_value (parameters He_reservoir_inlet_temperature)) (p_value (parameters Isopure_He_flow))
                (p_value (parameters Isopure_He_pressure)) (p_value (parameters Isopure_He_inlet_temperature))
                (p_value (parameters He_reservoir_pressure)) = ([], Inr 0)"
    by (simp add: submodel_defs bench_defs comp_defs Let_def)
  have shields: "shieldFlow bench (p_value (parameters Isopure_He_flow))
                (p_value (parameters Isopure_He_pressure))
                (p_value (parameters He_reservoir_pressure)) = ([], Inr (147 / 100, 194 / 175))"
    by (simp add: submodel_defs bench_defs comp_defs Let_def)
  have he3: "He3Temperature bench 0.002 (p_value (parameters He3_pumping_speed))
                (p_value (parameters Pump_inlet_temperature)) (p_value (parameters He3_pressure_drop))
                = ([], Inr (4 / 5))"
    by (simp add: submodel_defs bench_defs comp_defs Let_def)
  have hex1: "HEX1Temperature bench (4 / 5) (p_value (parameters HEX1_length))
                (p_value (parameters Channel_diameter))
                (p_value (parameters HEX1_fin_height)) (p_value (parameters HEX1_fin_pitch))
                (p_value (parameters Beam_heating) + p_value (parameters Static_heat)
                 + HeCoolingLoad bench (p_value (parameters Isopure_He_flow))
                     (p_value (parameters Isopure_He_pressure)) 1.8 (1 / 2))
                = ([], Inr (9 / 10))"
    by (simp add: submodel_defs bench_defs comp_defs Let_def math_pi_def power2_eq_square)
  from calcUCNSource_below_range
      [OF solved converged unknowns below pot reservoir density shields he3 hex1]
  have run: "calcUCNSource bench parameters
     = ([''T_4He '' @ format_3g bench (1 / 2) @ '' outside HEPAK range!''],
        Inr (Some bench_result))"
    by (simp add: bench_result_def bench_defs)
  from solved below run show ?thesis
    by (simp add: bench_result_def)
qed

section \<open>The sweep against its specification\<close>

lemma solved_at_value: "solved_at E ps p v = Some vr \<Longrightarrow> fst vr = v"
  by (auto simp: solved_at_def split: sum.splits option.splits)

lemma map_filter_solved_values:
  "map fst (List.map_filter (solved_at E ps p) vs) = [v \<leftarrow> vs. solved_at E ps p v \<noteq> None]"
proof (induction vs)
  case Nil
  show ?case by (simp add: List.map_filter_simps)
next
  case (Cons v vs)
  show ?case
  proof (cases "solved_at E ps p v")
    case None
    with Cons show ?thesis by (simp add: List.map_filter_simps)
  next
    case (Some vr)
    with Cons solved_at_value[OF Some] show ?thesis by (simp add: List.map_filter_simps)
  qed
qed

lemma sweepAll_series:
  assumes "sweepAll E ps names = (lg, Inr out)"
  shows "out = map (\<lambda>p. (p, series_of (plotted_points E ps p))) names"
  using assms
proof (induction names arbitrary: lg out)
  case Nil
  then show ?case by simp
next
  case (Cons p names)
  from Cons.prems obtain l1 s l2 rest where
    one: "sweepParameter E ps p = (l1, Inr s)"
    and more: "sweepAll E ps names = (l2, Inr rest)"
    and out: "out = (p, s) # rest"
    by (auto simp: bind_Inr_iff)
  from sweepParameter_series[OF one] Cons.IH[OF more] out show ?case by simp
qed

subsection \<open>The first and the last sample on the script's table\<close>

lemma sweepValue_first:
  assumes "fl (fst (p_range (ps p))) = fst (p_range (ps p))"
  shows "sweepValue ps p 0 = fst (p_range (ps p))"
  by (simp add: sweepValue_def ddiv_def dmul_def dadd_def assms)

lemma sweep_samples_last: "last (sweep_samples ps p) = snd (p_range (ps p))"
  by (simp add: sweep_samples_def upt_11 field_simps)

lemma double_samples_ends:
  "length (double_samples ps p) = 11"
  "hd (double_samples ps p) = sweepValue ps p 0"
  "last (double_samples ps p) = sweepValue ps p 10"
  by (simp_all add: double_samples_values upt_11)

lemma first_bound_He3_pumping_speed: "fl (fst (p_range (parameters He3_pumping_speed))) = fst (p_range (parameters He3_pumping_speed))"
proof -
  have r: "fl 300 = 300"
    by (subst fl_at[where e = "8"]) (simp_all add: round_even_def power_int_minus)
  show ?thesis
    unfolding parameters.simps parameter.select_convs fst_conv  r
    by (rule refl)
qed

lemma first_bound_He_pumping_speed: "fl (fst (p_range (parameters He_pumping_speed))) = fst (p_range (parameters He_pumping_speed))"
proof -
  have r: "fl 500 = 500"
    by (subst fl_at[where e = "8"]) (simp_all add: round_even_def power_int_minus)
  show ?thesis
    unfolding parameters.simps parameter.select_convs fst_conv  r
    by (rule refl)
qed

lemma first_bound_Pump_inlet_temperature: "fl (fst (p_range (parameters Pump_inlet_temperature))) = fst (p_range (parameters Pump_inlet_temperature))"
proof -
  have r: "fl 100 = 100"
    by (subst fl_at[where e = "6"]) (simp_all add: round_even_def power_int_minus)
  show ?thesis
    unfolding parameters.simps parameter.select_convs fst_conv  r
    by (rule refl)
qed

lemma first_bound_He3_inlet_pressure: "fl (fst (p_range (parameters He3_inlet_pressure))) = fst (p_range (parameters He3_inlet_pressure))"
proof -
  have r: "fl 50000 = 50000"
    by (subst fl_at[where e = "15"]) (simp_all add: round_even_def power_int_minus)
  show ?thesis
    unfolding parameters.simps parameter.select_convs fst_conv  r
    by (rule refl)
qed

lemma first_bound_Beam_heating: "fl (fst (p_range (parameters Beam_heating))) = fst (p_range (parameters Beam_heating))"
proof -
  have r: "fl 0 = 0"
    by (simp add: fl_def)
  show ?thesis
    unfolding parameters.simps parameter.select_convs fst_conv  r
    by (rule refl)
qed

lemma first_bound_Static_heat: "fl (fst (p_range (parameters Static_heat))) = fst (p_range (parameters Static_heat))"
proof -
  have r: "fl (3602879701896397 / 36028797018963968) = 3602879701896397 / 36028797018963968"
    by (subst fl_at[where e = "-4"]) (simp_all add: round_even_def power_int_minus)
  show ?thesis
    unfolding parameters.simps parameter.select_convs fst_conv lit_0_1 r
    by (rule refl)
qed

lemma first_bound_He3_pressure_drop: "fl (fst (p_range (parameters He3_pressure_drop))) = fst (p_range (parameters He3_pressure_drop))"
proof -
  have r: "fl 0 = 0"
    by (simp add: fl_def)
  show ?thesis
    unfolding parameters.simps parameter.select_convs fst_conv  r
    by (rule refl)
qed

lemma first_bound_He_pressure_drop: "fl (fst (p_range (parameters He_pressure_drop))) = fst (p_range (parameters He_pressure_drop))"
proof -
  have r: "fl 0 = 0"
    by (simp add: fl_def)
  show ?thesis
    unfolding parameters.simps parameter.select_convs fst_conv  r
    by (rule refl)
qed

lemma first_bound_Channel_diameter: "fl (fst (p_range (parameters Channel_diameter))) = fst (p_range (parameters Channel_diameter))"
proof -
  have r: "fl (3602879701896397 / 36028797018963968) = 3602879701896397 / 36028797018963968"
    by (subst fl_at[where e = "-4"]) (simp_all add: round_even_def power_int_minus)
  show ?thesis
    unfolding parameters.simps parameter.select_convs fst_conv lit_0_1 r
    by (rule refl)
qed

lemma first_bound_Channel_length: "fl (fst (p_range (parameters Channel_length))) = fst (p_range (parameters Channel_length))"
proof -
  have r: "fl 1 = 1"
    by (subst fl_at[where e = "0"]) (simp_all add: round_even_def power_int_minus)
  show ?thesis
    unfolding parameters.simps parameter.select_convs fst_conv  r
    by (rule refl)
qed

lemma first_bound_HEX1_length: "fl (fst (p_range (parameters HEX1_length))) = fst (p_range (parameters HEX1_length))"
proof -
  have r: "fl (3602879701896397 / 36028797018963968) = 3602879701896397 / 36028797018963968"
    by (subst fl_at[where e = "-4"]) (simp_all add: round_even_def power_int_minus)
  show ?thesis
    unfolding parameters.simps parameter.select_convs fst_conv lit_0_1 r
    by (rule refl)
qed

lemma first_bound_HEX1_fin_height: "fl (fst (p_range (parameters HEX1_fin_height))) = fst (p_range (parameters HEX1_fin_height))"
proof -
  have r: "fl 0 = 0"
    by (simp add: fl_def)
  show ?thesis
    unfolding parameters.simps parameter.select_convs fst_conv  r
    by (rule refl)
qed

lemma first_bound_HEX1_fin_pitch: "fl (fst (p_range (parameters HEX1_fin_pitch))) = fst (p_range (parameters HEX1_fin_pitch))"
proof -
  have r: "fl (1152921504606847 / 2305843009213693952) = 1152921504606847 / 2305843009213693952"
    by (subst fl_at[where e = "-11"]) (simp_all add: round_even_def power_int_minus)
  show ?thesis
    unfolding parameters.simps parameter.select_convs fst_conv lit_0_0005 r
    by (rule refl)
qed

lemma first_bound_HeII_overfill: "fl (fst (p_range (parameters HeII_overfill))) = fst (p_range (parameters HeII_overfill))"
proof -
  have r: "fl (5764607523034235 / 576460752303423488) = 5764607523034235 / 576460752303423488"
    by (subst fl_at[where e = "-7"]) (simp_all add: round_even_def power_int_minus)
  show ?thesis
    unfolding parameters.simps parameter.select_convs fst_conv lit_0_01 r
    by (rule refl)
qed

lemma first_bound_He_reservoir_pressure: "fl (fst (p_range (parameters He_reservoir_pressure))) = fst (p_range (parameters He_reservoir_pressure))"
proof -
  have r: "fl 90000 = 90000"
    by (subst fl_at[where e = "16"]) (simp_all add: round_even_def power_int_minus)
  show ?thesis
    unfolding parameters.simps parameter.select_convs fst_conv  r
    by (rule refl)
qed

lemma first_bound_OneKpot_inlet_temperature: "fl (fst (p_range (parameters OneKpot_inlet_temperature))) = fst (p_range (parameters OneKpot_inlet_temperature))"
proof -
  have r: "fl 2 = 2"
    by (subst fl_at[where e = "1"]) (simp_all add: round_even_def power_int_minus)
  show ?thesis
    unfolding parameters.simps parameter.select_convs fst_conv  r
    by (rule refl)
qed

lemma first_bound_He_reservoir_inlet_temperature: "fl (fst (p_range (parameters He_reservoir_inlet_temperature))) = fst (p_range (parameters He_reservoir_inlet_temperature))"
proof -
  have r: "fl 6 = 6"
    by (subst fl_at[where e = "2"]) (simp_all add: round_even_def power_int_minus)
  show ?thesis
    unfolding parameters.simps parameter.select_convs fst_conv  r
    by (rule refl)
qed

lemma first_bound_Isopure_He_flow: "fl (fst (p_range (parameters Isopure_He_flow))) = fst (p_range (parameters Isopure_He_flow))"
proof -
  have r: "fl 0 = 0"
    by (simp add: fl_def)
  show ?thesis
    unfolding parameters.simps parameter.select_convs fst_conv  r
    by (rule refl)
qed

lemma first_bound_Isopure_He_inlet_temperature: "fl (fst (p_range (parameters Isopure_He_inlet_temperature))) = fst (p_range (parameters Isopure_He_inlet_temperature))"
proof -
  have r: "fl 10 = 10"
    by (subst fl_at[where e = "3"]) (simp_all add: round_even_def power_int_minus)
  show ?thesis
    unfolding parameters.simps parameter.select_convs fst_conv  r
    by (rule refl)
qed

lemma first_bound_Isopure_He_pressure: "fl (fst (p_range (parameters Isopure_He_pressure))) = fst (p_range (parameters Isopure_He_pressure))"
proof -
  have r: "fl 1000 = 1000"
    by (subst fl_at[where e = "9"]) (simp_all add: round_even_def power_int_minus)
  show ?thesis
    unfolding parameters.simps parameter.select_convs fst_conv  r
    by (rule refl)
qed

lemma last_sample_He3_pumping_speed: "sweepValue parameters He3_pumping_speed 10 = 10000"
proof -
  have d: "dsub 10000 300 = 9700"
    unfolding dsub_def by (subst fl_at[where e = "13"]) (simp_all add: round_even_def power_int_minus)
  have q: "ddiv 10 10 = 1"
    unfolding ddiv_def by (subst fl_at[where e = "0"]) (simp_all add: round_even_def power_int_minus)
  have m: "dmul 1 9700 = 9700"
    unfolding dmul_def by (subst fl_at[where e = "13"]) (simp_all add: round_even_def power_int_minus)
  have a: "dadd 300 9700 = 10000"
    unfolding dadd_def by (subst fl_at[where e = "13"]) (simp_all add: round_even_def power_int_minus)
  show ?thesis
    unfolding sweepValue_def parameters.simps parameter.select_convs fst_conv snd_conv
      of_nat_numeral  d q m a
    by (rule refl)
qed

lemma last_sample_He_pumping_speed: "sweepValue parameters He_pumping_speed 10 = 5000"
proof -
  have d: "dsub 5000 500 = 4500"
    unfolding dsub_def by (subst fl_at[where e = "12"]) (simp_all add: round_even_def power_int_minus)
  have q: "ddiv 10 10 = 1"
    unfolding ddiv_def by (subst fl_at[where e = "0"]) (simp_all add: round_even_def power_int_minus)
  have m: "dmul 1 4500 = 4500"
    unfolding dmul_def by (subst fl_at[where e = "12"]) (simp_all add: round_even_def power_int_minus)
  have a: "dadd 500 4500 = 5000"
    unfolding dadd_def by (subst fl_at[where e = "12"]) (simp_all add: round_even_def power_int_minus)
  show ?thesis
    unfolding sweepValue_def parameters.simps parameter.select_convs fst_conv snd_conv
      of_nat_numeral  d q m a
    by (rule refl)
qed

lemma last_sample_Pump_inlet_temperature: "sweepValue parameters Pump_inlet_temperature 10 = 300"
proof -
  have d: "dsub 300 100 = 200"
    unfolding dsub_def by (subst fl_at[where e = "7"]) (simp_all add: round_even_def power_int_minus)
  have q: "ddiv 10 10 = 1"
    unfolding ddiv_def by (subst fl_at[where e = "0"]) (simp_all add: round_even_def power_int_minus)
  have m: "dmul 1 200 = 200"
    unfolding dmul_def by (subst fl_at[where e = "7"]) (simp_all add: round_even_def power_int_minus)
  have a: "dadd 100 200 = 300"
    unfolding dadd_def by (subst fl_at[where e = "8"]) (simp_all add: round_even_def power_int_minus)
  show ?thesis
    unfolding sweepValue_def parameters.simps parameter.select_convs fst_conv snd_conv
      of_nat_numeral  d q m a
    by (rule refl)
qed

lemma last_sample_He3_inlet_pressure: "sweepValue parameters He3_inlet_pressure 10 = 100000"
proof -
  have d: "dsub 100000 50000 = 50000"
    unfolding dsub_def by (subst fl_at[where e = "15"]) (simp_all add: round_even_def power_int_minus)
  have q: "ddiv 10 10 = 1"
    unfolding ddiv_def by (subst fl_at[where e = "0"]) (simp_all add: round_even_def power_int_minus)
  have m: "dmul 1 50000 = 50000"
    unfolding dmul_def by (subst fl_at[where e = "15"]) (simp_all add: round_even_def power_int_minus)
  have a: "dadd 50000 50000 = 100000"
    unfolding dadd_def by (subst fl_at[where e = "16"]) (simp_all add: round_even_def power_int_minus)
  show ?thesis
    unfolding sweepValue_def parameters.simps parameter.select_convs fst_conv snd_conv
      of_nat_numeral  d q m a
    by (rule refl)
qed

lemma last_sample_Beam_heating: "sweepValue parameters Beam_heating 10 = 10"
proof -
  have d: "dsub 10 0 = 10"
    unfolding dsub_def by (subst fl_at[where e = "3"]) (simp_all add: round_even_def power_int_minus)
  have q: "ddiv 10 10 = 1"
    unfolding ddiv_def by (subst fl_at[where e = "0"]) (simp_all add: round_even_def power_int_minus)
  have m: "dmul 1 10 = 10"
    unfolding dmul_def by (subst fl_at[where e = "3"]) (simp_all add: round_even_def power_int_minus)
  have a: "dadd 0 10 = 10"
    unfolding dadd_def by (subst fl_at[where e = "3"]) (simp_all add: round_even_def power_int_minus)
  show ?thesis
    unfolding sweepValue_def parameters.simps parameter.select_convs fst_conv snd_conv
      of_nat_numeral  d q m a
    by (rule refl)
qed

lemma last_sample_Static_heat: "sweepValue parameters Static_heat 10 = 2"
proof -
  have d: "dsub 2 (3602879701896397 / 36028797018963968) = 4278419646001971 / 2251799813685248"
    unfolding dsub_def by (subst fl_at[where e = "0"]) (simp_all add: round_even_def power_int_minus)
  have q: "ddiv 10 10 = 1"
    unfolding ddiv_def by (subst fl_at[where e = "0"]) (simp_all add: round_even_def power_int_minus)
  have m: "dmul 1 (4278419646001971 / 2251799813685248) = 4278419646001971 / 2251799813685248"
    unfolding dmul_def by (subst fl_at[where e = "0"]) (simp_all add: round_even_def power_int_minus)
  have a: "dadd (3602879701896397 / 36028797018963968) (4278419646001971 / 2251799813685248) = 2"
    unfolding dadd_def by (subst fl_at[where e = "0"]) (simp_all add: round_even_def power_int_minus)
  show ?thesis
    unfolding sweepValue_def parameters.simps parameter.select_convs fst_conv snd_conv
      of_nat_numeral lit_0_1 d q m a
    by (rule refl)
qed

lemma last_sample_He3_pressure_drop: "sweepValue parameters He3_pressure_drop 10 = 1000"
proof -
  have d: "dsub 1000 0 = 1000"
    unfolding dsub_def by (subst fl_at[where e = "9"]) (simp_all add: round_even_def power_int_minus)
  have q: "ddiv 10 10 = 1"
    unfolding ddiv_def by (subst fl_at[where e = "0"]) (simp_all add: round_even_def power_int_minus)
  have m: "dmul 1 1000 = 1000"
    unfolding dmul_def by (subst fl_at[where e = "9"]) (simp_all add: round_even_def power_int_minus)
  have a: "dadd 0 1000 = 1000"
    unfolding dadd_def by (subst fl_at[where e = "9"]) (simp_all add: round_even_def power_int_minus)
  show ?thesis
    unfolding sweepValue_def parameters.simps parameter.select_convs fst_conv snd_conv
      of_nat_numeral  d q m a
    by (rule refl)
qed

lemma last_sample_He_pressure_drop: "sweepValue parameters He_pressure_drop 10 = 1000"
proof -
  have d: "dsub 1000 0 = 1000"
    unfolding dsub_def by (subst fl_at[where e = "9"]) (simp_all add: round_even_def power_int_minus)
  have q: "ddiv 10 10 = 1"
    unfolding ddiv_def by (subst fl_at[where e = "0"]) (simp_all add: round_even_def power_int_minus)
  have m: "dmul 1 1000 = 1000"
    unfolding dmul_def by (subst fl_at[where e = "9"]) (simp_all add: round_even_def power_int_minus)
  have a: "dadd 0 1000 = 1000"
    unfolding dadd_def by (subst fl_at[where e = "9"]) (simp_all add: round_even_def power_int_minus)
  show ?thesis
    unfolding sweepValue_def parameters.simps parameter.select_convs fst_conv snd_conv
      of_nat_numeral  d q m a
    by (rule refl)
qed

lemma last_sample_Channel_diameter: "sweepValue parameters Channel_diameter 10 = 3602879701896397 / 18014398509481984"
proof -
  have d: "dsub (3602879701896397 / 18014398509481984) (3602879701896397 / 36028797018963968) = 3602879701896397 / 36028797018963968"
    unfolding dsub_def by (subst fl_at[where e = "-4"]) (simp_all add: round_even_def power_int_minus)
  have q: "ddiv 10 10 = 1"
    unfolding ddiv_def by (subst fl_at[where e = "0"]) (simp_all add: round_even_def power_int_minus)
  have m: "dmul 1 (3602879701896397 / 36028797018963968) = 3602879701896397 / 36028797018963968"
    unfolding dmul_def by (subst fl_at[where e = "-4"]) (simp_all add: round_even_def power_int_minus)
  have a: "dadd (3602879701896397 / 36028797018963968) (3602879701896397 / 36028797018963968) = 3602879701896397 / 18014398509481984"
    unfolding dadd_def by (subst fl_at[where e = "-3"]) (simp_all add: round_even_def power_int_minus)
  show ?thesis
    unfolding sweepValue_def parameters.simps parameter.select_convs fst_conv snd_conv
      of_nat_numeral lit_0_1 lit_0_2 d q m a
    by (rule refl)
qed

lemma last_sample_Channel_length: "sweepValue parameters Channel_length 10 = 4"
proof -
  have d: "dsub 4 1 = 3"
    unfolding dsub_def by (subst fl_at[where e = "1"]) (simp_all add: round_even_def power_int_minus)
  have q: "ddiv 10 10 = 1"
    unfolding ddiv_def by (subst fl_at[where e = "0"]) (simp_all add: round_even_def power_int_minus)
  have m: "dmul 1 3 = 3"
    unfolding dmul_def by (subst fl_at[where e = "1"]) (simp_all add: round_even_def power_int_minus)
  have a: "dadd 1 3 = 4"
    unfolding dadd_def by (subst fl_at[where e = "2"]) (simp_all add: round_even_def power_int_minus)
  show ?thesis
    unfolding sweepValue_def parameters.simps parameter.select_convs fst_conv snd_conv
      of_nat_numeral  d q m a
    by (rule refl)
qed

lemma last_sample_HEX1_length: "sweepValue parameters HEX1_length 10 = 5404319552844595 / 9007199254740992"
proof -
  have d: "dsub (5404319552844595 / 9007199254740992) (3602879701896397 / 36028797018963968) = 1 / 2"
    unfolding dsub_def by (subst fl_at[where e = "-2"]) (simp_all add: round_even_def power_int_minus)
  have q: "ddiv 10 10 = 1"
    unfolding ddiv_def by (subst fl_at[where e = "0"]) (simp_all add: round_even_def power_int_minus)
  have m: "dmul 1 (1 / 2) = 1 / 2"
    unfolding dmul_def by (subst fl_at[where e = "-1"]) (simp_all add: round_even_def power_int_minus)
  have a: "dadd (3602879701896397 / 36028797018963968) (1 / 2) = 5404319552844595 / 9007199254740992"
    unfolding dadd_def by (subst fl_at[where e = "-1"]) (simp_all add: round_even_def power_int_minus)
  show ?thesis
    unfolding sweepValue_def parameters.simps parameter.select_convs fst_conv snd_conv
      of_nat_numeral lit_0_1 lit_0_6 d q m a
    by (rule refl)
qed

lemma last_sample_HEX1_fin_height: "sweepValue parameters HEX1_fin_height 10 = 3458764513820541 / 1152921504606846976"
proof -
  have d: "dsub (3458764513820541 / 1152921504606846976) 0 = 3458764513820541 / 1152921504606846976"
    unfolding dsub_def by (subst fl_at[where e = "-9"]) (simp_all add: round_even_def power_int_minus)
  have q: "ddiv 10 10 = 1"
    unfolding ddiv_def by (subst fl_at[where e = "0"]) (simp_all add: round_even_def power_int_minus)
  have m: "dmul 1 (3458764513820541 / 1152921504606846976) = 3458764513820541 / 1152921504606846976"
    unfolding dmul_def by (subst fl_at[where e = "-9"]) (simp_all add: round_even_def power_int_minus)
  have a: "dadd 0 (3458764513820541 / 1152921504606846976) = 3458764513820541 / 1152921504606846976"
    unfolding dadd_def by (subst fl_at[where e = "-9"]) (simp_all add: round_even_def power_int_minus)
  show ?thesis
    unfolding sweepValue_def parameters.simps parameter.select_convs fst_conv snd_conv
      of_nat_numeral lit_0_003 d q m a
    by (rule refl)
qed

lemma last_sample_HEX1_fin_pitch: "sweepValue parameters HEX1_fin_pitch 10 = 1441151880758559 / 288230376151711744"
proof -
  have d: "dsub (5764607523034235 / 1152921504606846976) (1152921504606847 / 2305843009213693952) = 1297036692682703 / 288230376151711744"
    unfolding dsub_def by (subst fl_at[where e = "-8"]) (simp_all add: round_even_def power_int_minus)
  have q: "ddiv 10 10 = 1"
    unfolding ddiv_def by (subst fl_at[where e = "0"]) (simp_all add: round_even_def power_int_minus)
  have m: "dmul 1 (1297036692682703 / 288230376151711744) = 1297036692682703 / 288230376151711744"
    unfolding dmul_def by (subst fl_at[where e = "-8"]) (simp_all add: round_even_def power_int_minus)
  have a: "dadd (1152921504606847 / 2305843009213693952) (1297036692682703 / 288230376151711744) = 1441151880758559 / 288230376151711744"
    unfolding dadd_def by (subst fl_at[where e = "-8"]) (simp_all add: round_even_def power_int_minus)
  show ?thesis
    unfolding sweepValue_def parameters.simps parameter.select_convs fst_conv snd_conv
      of_nat_numeral lit_0_0005 lit_0_005 d q m a
    by (rule refl)
qed

lemma last_sample_HeII_overfill: "sweepValue parameters HeII_overfill 10 = 3602879701896397 / 18014398509481984"
proof -
  have d: "dsub (3602879701896397 / 18014398509481984) (5764607523034235 / 576460752303423488) = 3422735716801577 / 18014398509481984"
    unfolding dsub_def by (subst fl_at[where e = "-3"]) (simp_all add: round_even_def power_int_minus)
  have q: "ddiv 10 10 = 1"
    unfolding ddiv_def by (subst fl_at[where e = "0"]) (simp_all add: round_even_def power_int_minus)
  have m: "dmul 1 (3422735716801577 / 18014398509481984) = 3422735716801577 / 18014398509481984"
    unfolding dmul_def by (subst fl_at[where e = "-3"]) (simp_all add: round_even_def power_int_minus)
  have a: "dadd (5764607523034235 / 576460752303423488) (3422735716801577 / 18014398509481984) = 3602879701896397 / 18014398509481984"
    unfolding dadd_def by (subst fl_at[where e = "-3"]) (simp_all add: round_even_def power_int_minus)
  show ?thesis
    unfolding sweepValue_def parameters.simps parameter.select_convs fst_conv snd_conv
      of_nat_numeral lit_0_01 lit_0_2 d q m a
    by (rule refl)
qed

lemma last_sample_He_reservoir_pressure: "sweepValue parameters He_reservoir_pressure 10 = 150000"
proof -
  have d: "dsub 150000 90000 = 60000"
    unfolding dsub_def by (subst fl_at[where e = "15"]) (simp_all add: round_even_def power_int_minus)
  have q: "ddiv 10 10 = 1"
    unfolding ddiv_def by (subst fl_at[where e = "0"]) (simp_all add: round_even_def power_int_minus)
  have m: "dmul 1 60000 = 60000"
    unfolding dmul_def by (subst fl_at[where e = "15"]) (simp_all add: round_even_def power_int_minus)
  have a: "dadd 90000 60000 = 150000"
    unfolding dadd_def by (subst fl_at[where e = "17"]) (simp_all add: round_even_def power_int_minus)
  show ?thesis
    unfolding sweepValue_def parameters.simps parameter.select_convs fst_conv snd_conv
      of_nat_numeral  d q m a
    by (rule refl)
qed

lemma last_sample_OneKpot_inlet_temperature: "sweepValue parameters OneKpot_inlet_temperature 10 = 4"
proof -
  have d: "dsub 4 2 = 2"
    unfolding dsub_def by (subst fl_at[where e = "1"]) (simp_all add: round_even_def power_int_minus)
  have q: "ddiv 10 10 = 1"
    unfolding ddiv_def by (subst fl_at[where e = "0"]) (simp_all add: round_even_def power_int_minus)
  have m: "dmul 1 2 = 2"
    unfolding dmul_def by (subst fl_at[where e = "1"]) (simp_all add: round_even_def power_int_minus)
  have a: "dadd 2 2 = 4"
    unfolding dadd_def by (subst fl_at[where e = "2"]) (simp_all add: round_even_def power_int_minus)
  show ?thesis
    unfolding sweepValue_def parameters.simps parameter.select_convs fst_conv snd_conv
      of_nat_numeral  d q m a
    by (rule refl)
qed

lemma last_sample_He_reservoir_inlet_temperature: "sweepValue parameters He_reservoir_inlet_temperature 10 = 12"
proof -
  have d: "dsub 12 6 = 6"
    unfolding dsub_def by (subst fl_at[where e = "2"]) (simp_all add: round_even_def power_int_minus)
  have q: "ddiv 10 10 = 1"
    unfolding ddiv_def by (subst fl_at[where e = "0"]) (simp_all add: round_even_def power_int_minus)
  have m: "dmul 1 6 = 6"
    unfolding dmul_def by (subst fl_at[where e = "2"]) (simp_all add: round_even_def power_int_minus)
  have a: "dadd 6 6 = 12"
    unfolding dadd_def by (subst fl_at[where e = "3"]) (simp_all add: round_even_def power_int_minus)
  show ?thesis
    unfolding sweepValue_def parameters.simps parameter.select_convs fst_conv snd_conv
      of_nat_numeral  d q m a
    by (rule refl)
qed

lemma last_sample_Isopure_He_flow: "sweepValue parameters Isopure_He_flow 10 = 0"
proof -
  have d: "dsub 0 0 = 0"
    by (simp add: dsub_def fl_def)
  have q: "ddiv 10 10 = 1"
    unfolding ddiv_def by (subst fl_at[where e = "0"]) (simp_all add: round_even_def power_int_minus)
  have m: "dmul 1 0 = 0"
    by (simp add: dmul_def fl_def)
  have a: "dadd 0 0 = 0"
    by (simp add: dadd_def fl_def)
  show ?thesis
    unfolding sweepValue_def parameters.simps parameter.select_convs fst_conv snd_conv
      of_nat_numeral  d q m a
    by (rule refl)
qed

lemma last_sample_Isopure_He_inlet_temperature: "sweepValue parameters Isopure_He_inlet_temperature 10 = 40"
proof -
  have d: "dsub 40 10 = 30"
    unfolding dsub_def by (subst fl_at[where e = "4"]) (simp_all add: round_even_def power_int_minus)
  have q: "ddiv 10 10 = 1"
    unfolding ddiv_def by (subst fl_at[where e = "0"]) (simp_all add: round_even_def power_int_minus)
  have m: "dmul 1 30 = 30"
    unfolding dmul_def by (subst fl_at[where e = "4"]) (simp_all add: round_even_def power_int_minus)
  have a: "dadd 10 30 = 40"
    unfolding dadd_def by (subst fl_at[where e = "5"]) (simp_all add: round_even_def power_int_minus)
  show ?thesis
    unfolding sweepValue_def parameters.simps parameter.select_convs fst_conv snd_conv
      of_nat_numeral  d q m a
    by (rule refl)
qed

lemma last_sample_Isopure_He_pressure: "sweepValue parameters Isopure_He_pressure 10 = 50000"
proof -
  have d: "dsub 50000 1000 = 49000"
    unfolding dsub_def by (subst fl_at[where e = "15"]) (simp_all add: round_even_def power_int_minus)
  have q: "ddiv 10 10 = 1"
    unfolding ddiv_def by (subst fl_at[where e = "0"]) (simp_all add: round_even_def power_int_minus)
  have m: "dmul 1 49000 = 49000"
    unfolding dmul_def by (subst fl_at[where e = "15"]) (simp_all add: round_even_def power_int_minus)
  have a: "dadd 1000 49000 = 50000"
    unfolding dadd_def by (subst fl_at[where e = "15"]) (simp_all add: round_even_def power_int_minus)
  show ?thesis
    unfolding sweepValue_def parameters.simps parameter.select_convs fst_conv snd_conv
      of_nat_numeral  d q m a
    by (rule refl)
qed

lemmas lit_values = lit_0_0005 lit_0_003 lit_0_005 lit_0_01 lit_0_1 lit_0_2 lit_0_6

lemma first_sample_is_min:
  "hd (double_samples parameters q) = fst (p_range (parameters q))"
  unfolding double_samples_ends
  by (cases q; hypsubst; rule sweepValue_first)
    (rule
     first_bound_He3_pumping_speed first_bound_He_pumping_speed
     first_bound_Pump_inlet_temperature first_bound_He3_inlet_pressure
     first_bound_Beam_heating first_bound_Static_heat first_bound_He3_pressure_drop
     first_bound_He_pressure_drop first_bound_Channel_diameter first_bound_Channel_length
     first_bound_HEX1_length first_bound_HEX1_fin_height first_bound_HEX1_fin_pitch
     first_bound_HeII_overfill first_bound_He_reservoir_pressure
     first_bound_OneKpot_inlet_temperature first_bound_He_reservoir_inlet_temperature
     first_bound_Isopure_He_flow first_bound_Isopure_He_inlet_temperature
     first_bound_Isopure_He_pressure)+

lemma last_sample_is_max_iff:
  "(last (double_samples parameters q) = snd (p_range (parameters q))) = (q \<noteq> HEX1_fin_pitch)"
  unfolding double_samples_ends
  by (cases q; hypsubst;
      simp only: parameters.simps parameter.select_convs snd_conv lit_values
     last_sample_He3_pumping_speed last_sample_He_pumping_speed
     last_sample_Pump_inlet_temperature last_sample_He3_inlet_pressure
     last_sample_Beam_heating last_sample_Static_heat last_sample_He3_pressure_drop
     last_sample_He_pressure_drop last_sample_Channel_diameter last_sample_Channel_length
     last_sample_HEX1_length last_sample_HEX1_fin_height last_sample_HEX1_fin_pitch
     last_sample_HeII_overfill last_sample_He_reservoir_pressure
     last_sample_OneKpot_inlet_temperature last_sample_He_reservoir_inlet_temperature
     last_sample_Isopure_He_flow last_sample_Isopure_He_inlet_temperature
     last_sample_Isopure_He_pressure;
      simp)

text \<open>
  Claim C8 as the specification states it fails on the script's own table. The last
  sample of the fin pitch is \<^verbatim>\<open>0.0005 + 10/10.*(0.005 - 0.0005)\<close> in double
  arithmetic, the double next above the one that \<^verbatim>\<open>0.005\<close> denotes: it lies outside
  the documented range, and the sampled values are not those of the exact expression.
\<close>

theorem sweep_sample_exceeds_range:
  "sweepValue parameters HEX1_fin_pitch 10 = 1441151880758559 / 288230376151711744
   \<and> snd (p_range (parameters HEX1_fin_pitch)) = 5764607523034235 / 1152921504606846976
   \<and> snd (p_range (parameters HEX1_fin_pitch)) < sweepValue parameters HEX1_fin_pitch 10
   \<and> map (sweepValue parameters HEX1_fin_pitch) [0..<11] \<noteq> sweep_samples parameters HEX1_fin_pitch"
proof -
  have mx: "snd (p_range (parameters HEX1_fin_pitch)) = 5764607523034235 / 1152921504606846976"
    unfolding parameters.simps parameter.select_convs snd_conv lit_0_005 by (rule refl)
  have above: "snd (p_range (parameters HEX1_fin_pitch)) < sweepValue parameters HEX1_fin_pitch 10"
    unfolding mx last_sample_HEX1_fin_pitch by simp
  have exact: "last (sweep_samples parameters HEX1_fin_pitch) = snd (p_range (parameters HEX1_fin_pitch))"
    by (rule sweep_samples_last)
  have "last (map (sweepValue parameters HEX1_fin_pitch) [0..<11])
      = sweepValue parameters HEX1_fin_pitch 10"
    by (simp add: upt_11)
  with above exact
  have "last (map (sweepValue parameters HEX1_fin_pitch) [0..<11])
      \<noteq> last (sweep_samples parameters HEX1_fin_pitch)"
    by simp
  then have "map (sweepValue parameters HEX1_fin_pitch) [0..<11] \<noteq> sweep_samples parameters HEX1_fin_pitch"
    by metis
  with last_sample_HEX1_fin_pitch mx above show ?thesis by simp
qed

text \<open>
  Claim C8, as amended. The values at which a sweep solves are the eleven samples
  \<open>min + (j/10) (max - min)\<close>, \<open>j = 0, ..., 10\<close>, evaluated in double arithmetic. The
  first sample is the minimum of the range whenever that is a double, as it is for every
  parameter of the script's table. On the script's table the last sample is the maximum
  of the range for every parameter but the fin pitch of HEX1, where it is the maximum
  plus \<open>1 / 2 ^ 60\<close>, one unit in the last place. If the sweep of a parameter
  runs to its end, the lists it hands to the plots are exactly those of the samples at
  which \<open>calcUCNSource\<close>, on the original table with that one value replaced, returned a
  record: each such sample contributes its own value and the entries of its own record,
  and a sample without a record contributes nothing. The same holds for every parameter
  of the outer loop.
\<close>

theorem double_samples_and_plotted_points:
  "map (sweepValue ps p) [0..<11] = double_samples ps p
   \<and> length (double_samples ps p) = 11
   \<and> (fl (fst (p_range (ps p))) = fst (p_range (ps p)) \<longrightarrow>
        hd (double_samples ps p) = fst (p_range (ps p)))
   \<and> hd (double_samples parameters q) = fst (p_range (parameters q))
   \<and> (last (double_samples parameters q) = snd (p_range (parameters q))) = (q \<noteq> HEX1_fin_pitch)
   \<and> last (double_samples parameters HEX1_fin_pitch)
       = snd (p_range (parameters HEX1_fin_pitch)) + 1 / 2 ^ 60
   \<and> (sweepParameter E ps p = (lg, Inr s) \<longrightarrow>
        s = series_of (plotted_points E ps p)
        \<and> s_x s = [v \<leftarrow> double_samples ps p. solved_at E ps p v \<noteq> None])
   \<and> (sweepAll E ps names = (lg', Inr out) \<longrightarrow>
        out = map (\<lambda>q. (q, series_of (plotted_points E ps q))) names)"
proof -
  have first: "hd (double_samples ps p) = fst (p_range (ps p))"
    if "fl (fst (p_range (ps p))) = fst (p_range (ps p))"
    unfolding double_samples_ends using that by (rule sweepValue_first)
  have plotted: "s = series_of (plotted_points E ps p)
        \<and> s_x s = [v \<leftarrow> double_samples ps p. solved_at E ps p v \<noteq> None]"
    if run: "sweepParameter E ps p = (lg, Inr s)"
  proof -
    from run have s: "s = series_of (plotted_points E ps p)"
      by (rule sweepParameter_series)
    have "s_x (series_of (plotted_points E ps p)) = map fst (plotted_points E ps p)"
      by (simp add: series_of_def)
    also have "\<dots> = [v \<leftarrow> double_samples ps p. solved_at E ps p v \<noteq> None]"
      unfolding plotted_points_def by (rule map_filter_solved_values)
    finally show ?thesis using s by simp
  qed
  have all: "out = map (\<lambda>q. (q, series_of (plotted_points E ps q))) names"
    if "sweepAll E ps names = (lg', Inr out)"
    using that by (rule sweepAll_series)
  have ulp: "last (double_samples parameters HEX1_fin_pitch)
       = snd (p_range (parameters HEX1_fin_pitch)) + 1 / 2 ^ 60"
    unfolding double_samples_ends last_sample_HEX1_fin_pitch parameters.simps
      parameter.select_convs snd_conv lit_0_005
    by simp
  show ?thesis
    using double_samples_values[of ps p, symmetric] double_samples_ends(1)[of ps p] first
      first_sample_is_min[of q] last_sample_is_max_iff[of q] ulp plotted all
    by blast
qed

theorem double_samples_and_plotted_points_witness:
  "fl (fst (p_range (parameters Beam_heating))) = fst (p_range (parameters Beam_heating))
   \<and> double_samples parameters Beam_heating = [0, 1, 2, 3, 4, 5, 6, 7, 8, 9, 10]
   \<and> hd (double_samples parameters Beam_heating) = 0
   \<and> last (double_samples parameters HeII_overfill) = lit 0.2
   \<and> last (double_samples parameters HEX1_fin_pitch) \<noteq> lit 0.005
   \<and> snd (sweepParameter bench parameters Beam_heating) =
       Inr (series_of [(5, bench_result), (6, bench_result), (7, bench_result),
                       (8, bench_result), (9, bench_result), (10, bench_result)])
   \<and> series_of (plotted_points bench parameters Beam_heating) =
       series_of [(5, bench_result), (6, bench_result), (7, bench_result),
                       (8, bench_result), (9, bench_result), (10, bench_result)]
   \<and> [v \<leftarrow> double_samples parameters Beam_heating.
        solved_at bench parameters Beam_heating v \<noteq> None] = [5, 6, 7, 8, 9, 10]
   \<and> snd (sweepAll bench parameters [Beam_heating]) =
       Inr [(Beam_heating,
             series_of [(5, bench_result), (6, bench_result), (7, bench_result),
                       (8, bench_result), (9, bench_result), (10, bench_result)])]"
proof -
  let ?S = "series_of [(5, bench_result), (6, bench_result), (7, bench_result),
                       (8, bench_result), (9, bench_result), (10, bench_result)]"
  note inst = double_samples_and_plotted_points
      [where ps = parameters and p = Beam_heating and E = bench and s = ?S]
  have dbl: "fl (fst (p_range (parameters Beam_heating))) = fst (p_range (parameters Beam_heating))"
    by (rule first_bound_Beam_heating)
  from inst[where q = Beam_heating] have samples_eq:
    "map (sweepValue parameters Beam_heating) [0..<11] = double_samples parameters Beam_heating"
    by blast
  have samples: "double_samples parameters Beam_heating = [0, 1, 2, 3, 4, 5, 6, 7, 8, 9, 10]"
    unfolding samples_eq[symmetric] upt_11
    by (simp add: beam_sample_0 beam_sample_1[unfolded One_nat_def] beam_sample_2 beam_sample_3
        beam_sample_4 beam_sample_5 beam_sample_6 beam_sample_7 beam_sample_8 beam_sample_9
        beam_sample_10)
  from inst[where q = Beam_heating] dbl have first: "hd (double_samples parameters Beam_heating) = 0"
    by simp
  from inst[where q = HeII_overfill] have l1: "last (double_samples parameters HeII_overfill) = lit 0.2"
    by simp
  from inst[where q = HEX1_fin_pitch] have l2: "last (double_samples parameters HEX1_fin_pitch) \<noteq> lit 0.005"
    by simp
  from bench_sweep have run: "snd (sweepParameter bench parameters Beam_heating) = Inr ?S"
    by simp
  from inst[where q = Beam_heating] bench_sweep
  have eq: "?S = series_of (plotted_points bench parameters Beam_heating)"
    and xs: "s_x ?S = [v \<leftarrow> double_samples parameters Beam_heating.
        solved_at bench parameters Beam_heating v \<noteq> None]"
    by blast+
  have "s_x ?S = [5, 6, 7, 8, 9, 10]"
    by (simp add: series_of_def)
  with xs have flt: "[v \<leftarrow> double_samples parameters Beam_heating.
        solved_at bench parameters Beam_heating v \<noteq> None] = [5, 6, 7, 8, 9, 10]"
    by simp
  have "snd (sweepAll bench parameters [Beam_heating]) = Inr [(Beam_heating, ?S)]"
    by (simp add: bench_sweep bind_c_def return_c_def)
  with dbl samples first l1 l2 run eq[symmetric] flt show ?thesis by blast
qed

end
